theory Spec2Isabelle
  imports Complex_Main "HOL-Library.Word"
begin

section \<open>JavaScript values crossing the signer's boundary\<close>

text \<open>
  The signer of \<^verbatim>\<open>toWebAuthnSigner.ts\<close> receives untyped values from the outside: the bodies
  of the two passkey-server responses (\<^verbatim>\<open>await response.json()\<close>) and the credential
  returned by the platform authenticator. They are kept as JavaScript values. An object is
  the list of its own enumerable properties, in the order JavaScript enumerates them; the
  first binding of a key is the one a property read sees. A string is the list of its
  code units, each below 256.
\<close>

datatype jsval =
    JUndefined
  | JNull
  | JBool bool
  | JNum rat
  | JStr string
  | JArr "jsval list"
  | JObj "(string \<times> jsval) list"

datatype error =
    Error string
    \<comment> \<open>\<^verbatim>\<open>throw new Error(message)\<close>, the only exception this file constructs itself\<close>
  | SignTransactionNotSupportedBySmartAccount
  | TypeError
    \<comment> \<open>a property read on \<^verbatim>\<open>null\<close> or \<^verbatim>\<open>undefined\<close>\<close>
  | Rejected string
    \<comment> \<open>an exception or rejected promise of a collaborator, with its name\<close>

text \<open>\<^verbatim>\<open>v.k\<close>: reading a property throws on \<^verbatim>\<open>null\<close> and \<^verbatim>\<open>undefined\<close>, and gives
  \<^verbatim>\<open>undefined\<close> where the key is absent. None of the keys read by the signer is a built-in
  property of a string, number, boolean or array.\<close>

fun get_prop :: "jsval \<Rightarrow> string \<Rightarrow> error + jsval" where
  "get_prop JUndefined k = Inl TypeError"
| "get_prop JNull k = Inl TypeError"
| "get_prop (JObj kvs) k = (case map_of kvs k of None \<Rightarrow> Inr JUndefined | Some v \<Rightarrow> Inr v)"
| "get_prop v k = Inr JUndefined"

text \<open>The operand of \<^verbatim>\<open>!\<close>: what JavaScript converts to \<^verbatim>\<open>true\<close>.\<close>

fun truthy :: "jsval \<Rightarrow> bool" where
  "truthy JUndefined = False"
| "truthy JNull = False"
| "truthy (JBool b) = b"
| "truthy (JNum n) = (n \<noteq> 0)"
| "truthy (JStr s) = (s \<noteq> [])"
| "truthy (JArr xs) = True"
| "truthy (JObj kvs) = True"

section \<open>Data of the signer\<close>

type_synonym byte = "8 word"

record WebAuthnKey =
  pubX :: int
  pubY :: int

datatype WebAuthnMode = Register | Login

record WebAuthnModularSignerParams =
  signerContractAddress_param :: "string option"
  passkeyName :: string
  passkeyServerUrl :: string
  pubKey_param :: "WebAuthnKey option"
  mode_param :: "WebAuthnMode option"

text \<open>viem's \<^verbatim>\<open>SignableMessage = string | { raw: Hex | ByteArray }\<close>, with the two shapes
  the type excludes and the run-time checks of \<^verbatim>\<open>signMessageUsingWebAuthn\<close> still see: a
  \<^verbatim>\<open>raw\<close> that is neither a string nor a \<^verbatim>\<open>Uint8Array\<close>, and an object without \<^verbatim>\<open>raw\<close>.\<close>

datatype raw_value = RawString string | RawByteArray "byte list" | RawOther jsval

datatype SignableMessage = MessageString string | MessageRaw raw_value | MessageNoRaw

record TypedDataDefinition =
  domain :: jsval
  types :: jsval
  primaryType :: jsval
  message :: jsval

record abi_parameter =
  param_name :: string
  param_type :: string

text \<open>The values handed to \<^verbatim>\<open>encodeAbiParameters\<close>: a string (a \<^verbatim>\<open>Hex\<close> for a
  \<^verbatim>\<open>bytes\<close> parameter, text for a \<^verbatim>\<open>string\<close> one), a \<^verbatim>\<open>bigint\<close> or a boolean.\<close>

datatype abi_value = AbiString string | AbiBigInt int | AbiBoolean bool

record request =
  url :: string
  http_method :: string
  headers :: "(string \<times> string) list"
  body :: jsval
    \<comment> \<open>the value given to \<^verbatim>\<open>JSON.stringify\<close>\<close>
  credentials :: string

record response =
  status :: nat
  json :: "error + jsval"
    \<comment> \<open>what \<^verbatim>\<open>await response.json()\<close> gives: the parsed body, or the rejection\<close>

record PublicKeyCredentialRequestOptionsJSON =
  challenge :: jsval
  allowCredentials :: jsval
  userVerification :: string

record quote_indices =
  beforeType :: int
  beforeChallenge :: int

record normalized_sig =
  sig_r :: int
  sig_s :: int

record validate_args =
  v_domain :: jsval
  v_message :: jsval
  v_primaryType :: jsval
  v_types :: jsval

section \<open>Collaborators\<close>

text \<open>
  Everything the file imports and calls: the browser (\<^verbatim>\<open>fetch\<close>, \<^verbatim>\<open>atob\<close>), the platform
  authenticator (\<^verbatim>\<open>startAuthentication\<close>), viem (\<^verbatim>\<open>encodeAbiParameters\<close>,
  \<^verbatim>\<open>getTypesForEIP712Domain\<close>, \<^verbatim>\<open>validateTypedData\<close>, \<^verbatim>\<open>hashTypedData\<close>) and the helpers of
  \<^verbatim>\<open>./webAuthnUtils.js\<close> and \<^verbatim>\<open>./toWebAuthnPubKey.js\<close>. None of them is defined in the two
  source files, so each is a parameter: a function from its arguments to its result or to
  the exception it throws. \<^verbatim>\<open>BigInt(r)\<close> of a \<^verbatim>\<open>bigint\<close> is that \<^verbatim>\<open>bigint\<close>.
\<close>

record env =
  toWebAuthnPubKey :: "string \<Rightarrow> string \<Rightarrow> WebAuthnMode \<Rightarrow> error + WebAuthnKey option"
  fetch :: "request \<Rightarrow> error + response"
  startAuthentication :: "PublicKeyCredentialRequestOptionsJSON \<Rightarrow> error + jsval"
  atob :: "jsval \<Rightarrow> error + string"
  b64ToBytes :: "jsval \<Rightarrow> error + byte list"
  uint8ArrayToHexString :: "byte list \<Rightarrow> string"
  findQuoteIndices :: "string \<Rightarrow> error + quote_indices"
  parseAndNormalizeSig :: "string \<Rightarrow> error + normalized_sig"
  isRIP7212SupportedNetwork :: "nat \<Rightarrow> bool"
  encodeAbiParameters :: "abi_parameter list \<Rightarrow> abi_value list \<Rightarrow> error + string"
  getTypesForEIP712Domain :: "jsval \<Rightarrow> jsval"
  validateTypedData :: "validate_args \<Rightarrow> error + unit"
  hashTypedData :: "TypedDataDefinition \<Rightarrow> error + string"

text \<open>Every call of a collaborator is recorded, in the order the calls are made.\<close>

datatype event =
    CallToWebAuthnPubKey string string WebAuthnMode
  | CallGetChainId
  | CallFetch request
  | CallStartAuthentication PublicKeyCredentialRequestOptionsJSON
  | CallAtob jsval
  | CallB64ToBytes jsval
  | CallUint8ArrayToHexString "byte list"
  | CallFindQuoteIndices string
  | CallParseAndNormalizeSig string
  | CallIsRIP7212SupportedNetwork nat
  | CallEncodeAbiParameters "abi_parameter list" "abi_value list"
  | CallGetTypesForEIP712Domain jsval
  | CallValidateTypedData validate_args
  | CallHashTypedData TypedDataDefinition

text \<open>The world outside the signer: the chain the viem client answers for at this moment
  (or the failure of the request), and the calls made so far.\<close>

record world =
  client_chain :: "error + nat"
  calls :: "event list"

type_synonym 'a io = "world \<Rightarrow> (error + 'a) \<times> world"

definition io_return :: "'a \<Rightarrow> 'a io" where
  "io_return x = (\<lambda>w. (Inr x, w))"

definition io_throw :: "error \<Rightarrow> 'a io" where
  "io_throw e = (\<lambda>w. (Inl e, w))"

definition io_bind :: "'a io \<Rightarrow> ('a \<Rightarrow> 'b io) \<Rightarrow> 'b io" where
  "io_bind m f = (\<lambda>w. case m w of (Inl e, w') \<Rightarrow> (Inl e, w') | (Inr x, w') \<Rightarrow> f x w')"

definition io_lift :: "error + 'a \<Rightarrow> 'a io" where
  "io_lift r = (\<lambda>w. (r, w))"

definition io_call :: "event \<Rightarrow> error + 'a \<Rightarrow> 'a io" where
  "io_call ev r = (\<lambda>w. (r, w\<lparr>calls := calls w @ [ev]\<rparr>))"

definition getChainId :: "nat io" where
  "getChainId = (\<lambda>w. (client_chain w, w\<lparr>calls := calls w @ [CallGetChainId]\<rparr>))"

section \<open>The signer\<close>

subsection \<open>Constants\<close>

definition WEBAUTHN_SIGNER_CONTRACT :: string where
  "WEBAUTHN_SIGNER_CONTRACT = ''0x8AA55d4BfAE101609078681A69B5bc3181516612''"

definition maxUint256 :: int where
  "maxUint256 = 2 ^ 256 - 1"

text \<open>The parameter list both signature encodings pass to \<^verbatim>\<open>encodeAbiParameters\<close>
  (lines 144--152 and 212--220).\<close>

definition signature_abi :: "abi_parameter list" where
  "signature_abi =
    [\<lparr>param_name = ''authenticatorData'', param_type = ''bytes''\<rparr>,
     \<lparr>param_name = ''clientDataJSON'', param_type = ''string''\<rparr>,
     \<lparr>param_name = ''challengeLocation'', param_type = ''uint256''\<rparr>,
     \<lparr>param_name = ''responseTypeLocation'', param_type = ''uint256''\<rparr>,
     \<lparr>param_name = ''r'', param_type = ''uint256''\<rparr>,
     \<lparr>param_name = ''s'', param_type = ''uint256''\<rparr>,
     \<lparr>param_name = ''usePrecompiled'', param_type = ''bool''\<rparr>]"

text \<open>The parameter list of \<^verbatim>\<open>getSignerData\<close> (lines 203--206).\<close>

definition signer_data_abi :: "abi_parameter list" where
  "signer_data_abi =
    [\<lparr>param_name = ''pubX'', param_type = ''uint256''\<rparr>,
     \<lparr>param_name = ''pubY'', param_type = ''uint256''\<rparr>]"

subsection \<open>The message handed to the server (lines 70--87)\<close>

text \<open>\<^verbatim>\<open>Uint8Array.prototype.toString\<close> joins the elements, written in decimal, with commas.\<close>

definition digit_char :: "nat \<Rightarrow> char" where
  "digit_char d = char_of (48 + d)"

definition byte_toString :: "byte \<Rightarrow> string" where
  "byte_toString b =
    (let n = unat b in
     if n < 10 then [digit_char n]
     else if n < 100 then [digit_char (n div 10), digit_char (n mod 10)]
     else [digit_char (n div 100), digit_char (n div 10 mod 10), digit_char (n mod 10)])"

fun join_commas :: "string list \<Rightarrow> string" where
  "join_commas [] = []"
| "join_commas [x] = x"
| "join_commas (x # y # ys) = x @ '','' @ join_commas (y # ys)"

definition Uint8Array_toString :: "byte list \<Rightarrow> string" where
  "Uint8Array_toString bs = join_commas (map byte_toString bs)"

fun messageContent :: "SignableMessage \<Rightarrow> error + string" where
  "messageContent (MessageString m) = Inr m"
| "messageContent (MessageRaw (RawString raw)) = Inr raw"
| "messageContent (MessageRaw (RawByteArray raw)) = Inr (Uint8Array_toString raw)"
| "messageContent (MessageRaw (RawOther v)) = Inl (Error ''Unsupported message format'')"
| "messageContent MessageNoRaw = Inl (Error ''Unsupported message format'')"

definition startsWith :: "string \<Rightarrow> string \<Rightarrow> bool" where
  "startsWith s p = (take (length p) s = p)"

definition formattedMessage :: "string \<Rightarrow> string" where
  "formattedMessage content = (if startsWith content ''0x'' then drop 2 content else content)"

subsection \<open>The two requests (lines 90--98 and 112--117)\<close>

definition signInitiateRequest :: "string \<Rightarrow> string \<Rightarrow> request" where
  "signInitiateRequest serverUrl formatted =
    \<lparr>url = serverUrl @ ''/sign-initiate'',
     http_method = ''POST'',
     headers = [(''Content-Type'', ''application/json'')],
     body = JObj [(''data'', JStr formatted)],
     credentials = ''include''\<rparr>"

definition signVerifyRequest :: "string \<Rightarrow> jsval \<Rightarrow> request" where
  "signVerifyRequest serverUrl cred =
    \<lparr>url = serverUrl @ ''/sign-verify'',
     http_method = ''POST'',
     headers = [(''Content-Type'', ''application/json'')],
     body = JObj [(''cred'', cred)],
     credentials = ''include''\<rparr>"

subsection \<open>Building the signature (lines 125--163)\<close>

text \<open>What \<^verbatim>\<open>signMessageUsingWebAuthn\<close> does once the server has verified the assertion:
  decode the authenticator data, decode and scan the client data, normalise the
  signature and encode the seven values. The arguments of \<^verbatim>\<open>encodeAbiParameters\<close> are
  evaluated left to right, so the capability lookup is the last call before the encoder.\<close>

definition buildSignature :: "env \<Rightarrow> nat \<Rightarrow> jsval \<Rightarrow> jsval \<Rightarrow> string io" where
  "buildSignature env chain cred verifyResult =
    io_bind (io_lift (get_prop verifyResult ''authenticatorData'')) (\<lambda>authenticatorData.
    io_bind (io_call (CallB64ToBytes authenticatorData) (b64ToBytes env authenticatorData)) (\<lambda>authBytes.
    io_bind (io_call (CallUint8ArrayToHexString authBytes)
               (Inr (uint8ArrayToHexString env authBytes))) (\<lambda>authenticatorDataHex.
    io_bind (io_lift (get_prop cred ''response'')) (\<lambda>credResponse.
    io_bind (io_lift (get_prop credResponse ''clientDataJSON'')) (\<lambda>encodedClientData.
    io_bind (io_call (CallAtob encodedClientData) (atob env encodedClientData)) (\<lambda>clientDataJSON.
    io_bind (io_call (CallFindQuoteIndices clientDataJSON)
               (findQuoteIndices env clientDataJSON)) (\<lambda>indices.
    io_bind (io_lift (get_prop verifyResult ''signature'')) (\<lambda>signature.
    io_bind (io_call (CallB64ToBytes signature) (b64ToBytes env signature)) (\<lambda>sigBytes.
    io_bind (io_call (CallUint8ArrayToHexString sigBytes)
               (Inr (uint8ArrayToHexString env sigBytes))) (\<lambda>signatureHex.
    io_bind (io_call (CallParseAndNormalizeSig signatureHex)
               (parseAndNormalizeSig env signatureHex)) (\<lambda>rs.
    io_bind (io_call (CallIsRIP7212SupportedNetwork chain)
               (Inr (isRIP7212SupportedNetwork env chain))) (\<lambda>usePrecompiled.
    (let values =
          [AbiString authenticatorDataHex,
           AbiString clientDataJSON,
           AbiBigInt (beforeChallenge indices),
           AbiBigInt (beforeType indices),
           AbiBigInt (sig_r rs),
           AbiBigInt (sig_s rs),
           AbiBoolean usePrecompiled]
     in io_call (CallEncodeAbiParameters signature_abi values)
          (encodeAbiParameters env signature_abi values))))))))))))))"

subsection \<open>\<^verbatim>\<open>signMessageUsingWebAuthn\<close> (lines 69--164)\<close>

definition signMessageUsingWebAuthn :: "env \<Rightarrow> string \<Rightarrow> nat \<Rightarrow> SignableMessage \<Rightarrow> string io" where
  "signMessageUsingWebAuthn env serverUrl chain msg =
    io_bind (io_lift (messageContent msg)) (\<lambda>content.
    io_bind (io_call (CallFetch (signInitiateRequest serverUrl (formattedMessage content)))
               (fetch env (signInitiateRequest serverUrl (formattedMessage content))))
      (\<lambda>signInitiateResponse.
    io_bind (io_lift (json signInitiateResponse)) (\<lambda>signInitiateResult.
    io_bind (io_lift (get_prop signInitiateResult ''challenge'')) (\<lambda>ch.
    io_bind (io_lift (get_prop signInitiateResult ''allowCredentials'')) (\<lambda>allow.
    (let assertionOptions =
          \<lparr>challenge = ch, allowCredentials = allow, userVerification = ''required''\<rparr>
     in
    io_bind (io_call (CallStartAuthentication assertionOptions)
               (startAuthentication env assertionOptions)) (\<lambda>cred.
    io_bind (io_call (CallFetch (signVerifyRequest serverUrl cred))
               (fetch env (signVerifyRequest serverUrl cred))) (\<lambda>verifyResponse.
    io_bind (io_lift (json verifyResponse)) (\<lambda>verifyResult.
    io_bind (io_lift (get_prop verifyResult ''success'')) (\<lambda>success.
    if \<not> truthy success then io_throw (Error ''Signature not verified'')
    else buildSignature env chain cred verifyResult))))))))))"

subsection \<open>\<^verbatim>\<open>toWebAuthnSigner\<close> and the object it returns\<close>

text \<open>The returned \<^verbatim>\<open>ModularSigner\<close> with the variables its methods close over:
  \<^verbatim>\<open>pubKey\<close> (still typed as possibly undefined inside \<^verbatim>\<open>getSignerData\<close>), \<^verbatim>\<open>chainId\<close>
  and \<^verbatim>\<open>passkeyServerUrl\<close>.\<close>

record ModularSigner =
  address :: string
  signerContractAddress :: string
  pubKey :: "WebAuthnKey option"
  chainId :: nat
  serverUrl :: string

definition toWebAuthnSigner :: "env \<Rightarrow> WebAuthnModularSignerParams \<Rightarrow> ModularSigner io" where
  "toWebAuthnSigner env params =
    io_bind
      (case pubKey_param params of
         Some k \<Rightarrow> io_return (Some k)
       | None \<Rightarrow>
           (let m = (case mode_param params of None \<Rightarrow> Register | Some m' \<Rightarrow> m')
            in io_call (CallToWebAuthnPubKey (passkeyName params) (passkeyServerUrl params) m)
                 (toWebAuthnPubKey env (passkeyName params) (passkeyServerUrl params) m)))
      (\<lambda>key.
    if key = None then io_throw (Error ''WebAuthn public key not found'')
    else
    io_bind getChainId (\<lambda>chain.
    io_return
      \<lparr>address = ''0x0000000000000000000000000000000000000000'',
       signerContractAddress =
         (case signerContractAddress_param params of
            None \<Rightarrow> WEBAUTHN_SIGNER_CONTRACT | Some a \<Rightarrow> a),
       pubKey = key,
       chainId = chain,
       serverUrl = passkeyServerUrl params\<rparr>))"

definition signMessage :: "env \<Rightarrow> ModularSigner \<Rightarrow> SignableMessage \<Rightarrow> string io" where
  "signMessage env signer msg =
    signMessageUsingWebAuthn env (serverUrl signer) (chainId signer) msg"

definition signTransaction :: "env \<Rightarrow> ModularSigner \<Rightarrow> string io" where
  "signTransaction env signer = io_throw SignTransactionNotSupportedBySmartAccount"

text \<open>
  \<^verbatim>\<open>{ EIP712Domain: ..., ...typedData.types }\<close> (lines 183--186). The spread copies the own
  enumerable properties of \<^verbatim>\<open>typedData.types\<close> onto the new object: those of an object, the
  elements of an array under their indices, the code units of a string under theirs, and
  nothing for \<^verbatim>\<open>undefined\<close>, \<^verbatim>\<open>null\<close>, a number or a boolean. A copied key that the object
  already has keeps its place and takes the new value. The resulting object enumerates its
  array-index keys first, in ascending order, and then its other keys in the order they
  were created.
\<close>

fun string_of_nat :: "nat \<Rightarrow> string" where
  "string_of_nat n =
    (if n < 10 then [digit_char n] else string_of_nat (n div 10) @ [digit_char (n mod 10)])"

definition indexed :: "'a list \<Rightarrow> (string \<times> 'a) list" where
  "indexed xs = zip (map string_of_nat [0..<length xs]) xs"

fun own_properties :: "jsval \<Rightarrow> (string \<times> jsval) list" where
  "own_properties (JObj kvs) = kvs"
| "own_properties (JArr xs) = indexed xs"
| "own_properties (JStr s) = indexed (map (\<lambda>c. JStr [c]) s)"
| "own_properties v = []"

definition is_digit :: "char \<Rightarrow> bool" where
  "is_digit c = (48 \<le> (of_char c :: nat) \<and> (of_char c :: nat) \<le> 57)"

definition decimal_value :: "string \<Rightarrow> int" where
  "decimal_value k = foldl (\<lambda>acc c. 10 * acc + (of_char c - 48)) 0 k"

text \<open>An array index: the canonical decimal form of a number below \<^verbatim>\<open>2 ** 32 - 1\<close>.\<close>

definition is_array_index :: "string \<Rightarrow> bool" where
  "is_array_index k =
    (k \<noteq> [] \<and> list_all is_digit k \<and> (k = ''0'' \<or> hd k \<noteq> CHR ''0'') \<and>
     decimal_value k < 4294967295)"

fun assign :: "string \<times> jsval \<Rightarrow> (string \<times> jsval) list \<Rightarrow> (string \<times> jsval) list" where
  "assign (k, v) [] = [(k, v)]"
| "assign (k, v) ((k', v') # kvs) =
    (if k = k' then (k, v) # kvs else (k', v') # assign (k, v) kvs)"

definition typesWithDomain :: "jsval \<Rightarrow> jsval \<Rightarrow> jsval" where
  "typesWithDomain domainTypes typedDataTypes =
    (let copied = own_properties typedDataTypes in
     JObj (sort_key (\<lambda>p. decimal_value (fst p)) (filter (\<lambda>p. is_array_index (fst p)) copied)
           @ fold assign (filter (\<lambda>p. \<not> is_array_index (fst p)) copied)
               [(''EIP712Domain'', domainTypes)]))"

definition signTypedData :: "env \<Rightarrow> ModularSigner \<Rightarrow> TypedDataDefinition \<Rightarrow> string io" where
  "signTypedData env signer typedData =
    io_bind (io_call (CallGetTypesForEIP712Domain (domain typedData))
               (Inr (getTypesForEIP712Domain env (domain typedData)))) (\<lambda>domainTypes.
    (let args =
          \<lparr>v_domain = domain typedData,
           v_message = message typedData,
           v_primaryType = primaryType typedData,
           v_types = typesWithDomain domainTypes (types typedData)\<rparr>
     in
    io_bind (io_call (CallValidateTypedData args) (validateTypedData env args)) (\<lambda>_.
    io_bind (io_call (CallHashTypedData typedData) (hashTypedData env typedData)) (\<lambda>hash.
    signMessageUsingWebAuthn env (serverUrl signer) (chainId signer) (MessageString hash)))))"

definition getSignerData :: "env \<Rightarrow> ModularSigner \<Rightarrow> string io" where
  "getSignerData env signer =
    (case pubKey signer of
       None \<Rightarrow> io_throw (Error ''WebAuthn public key not found'')
     | Some k \<Rightarrow>
         io_call (CallEncodeAbiParameters signer_data_abi [AbiBigInt (pubX k), AbiBigInt (pubY k)])
           (encodeAbiParameters env signer_data_abi [AbiBigInt (pubX k), AbiBigInt (pubY k)]))"

definition dummy_authenticatorData :: string where
  "dummy_authenticatorData =
    ''0xffffffffffffffffffffffffffffffffffffffffffffffffffffffffffffffffffffffffff''"

definition dummy_clientDataJSON :: string where
  "dummy_clientDataJSON =
    [CHR ''{'', CHR 0x22] @ ''type'' @ [CHR 0x22, CHR '':'', CHR 0x22] @ ''webauthn.get''
    @ [CHR 0x22, CHR '','', CHR 0x22] @ ''challenge'' @ [CHR 0x22, CHR '':'', CHR 0x22]
    @ ''aaaaaaaaaaaaaaaaaaaaaaaaaaaaaaaaaaaaaaaaaaa''
    @ [CHR 0x22, CHR '','', CHR 0x22] @ ''origin'' @ [CHR 0x22, CHR '':'', CHR 0x22]
    @ ''https://example.com'' @ [CHR 0x22, CHR ''}'']"

definition dummy_r :: int where
  "dummy_r = 11111111111111111111111111111111111111111111111111111111111111111111111111111"

definition dummy_s :: int where
  "dummy_s = 22222222222222222222222222222222222222222222222222222222222222222222222222222"

definition getDummySignature :: "env \<Rightarrow> ModularSigner \<Rightarrow> string io" where
  "getDummySignature env signer =
    io_bind (io_call (CallIsRIP7212SupportedNetwork (chainId signer))
               (Inr (isRIP7212SupportedNetwork env (chainId signer)))) (\<lambda>usePrecompiled.
    (let values =
          [AbiString dummy_authenticatorData,
           AbiString dummy_clientDataJSON,
           AbiBigInt maxUint256,
           AbiBigInt maxUint256,
           AbiBigInt dummy_r,
           AbiBigInt dummy_s,
           AbiBoolean usePrecompiled]
     in io_call (CallEncodeAbiParameters signature_abi values)
          (encodeAbiParameters env signature_abi values)))"


section \<open>The contract ABI encoding\<close>

text \<open>
  \<^verbatim>\<open>encodeAbiParameters\<close> belongs to viem, and the signer is verified for any function in
  its place. Where the bytes of a signature matter, the parameter is instantiated with
  the encoding viem computes for the four parameter types the signer uses, the Solidity
  contract ABI encoding of a tuple: one 32-byte head word for each parameter, then the
  tails of the dynamic ones. A \<^verbatim>\<open>uint256\<close> and a \<^verbatim>\<open>bool\<close> are their head word; the head
  word of \<^verbatim>\<open>bytes\<close> and \<^verbatim>\<open>string\<close> is the offset of the tail, which is the length in
  bytes followed by the bytes, padded with zeros to a multiple of 32. The result is a
  \<^verbatim>\<open>Hex\<close> string. A number outside \<^verbatim>\<open>uint256\<close> is refused, as viem refuses it. A \<^verbatim>\<open>bytes\<close>
  value that is not \<^verbatim>\<open>0x\<close> and an even number of hexadecimal digits, a value of the wrong
  kind and any other parameter type are outside this encoding, and refused here.
\<close>

definition hex_digit :: "int \<Rightarrow> char" where
  "hex_digit d = (if d < 10 then char_of (48 + d) else char_of (87 + d))"

fun to_hex :: "nat \<Rightarrow> int \<Rightarrow> string" where
  "to_hex 0 v = []"
| "to_hex (Suc k) v = to_hex k (v div 16) @ [hex_digit (v mod 16)]"

definition hex_value :: "char \<Rightarrow> int option" where
  "hex_value c =
    (let n = (of_char c :: int) in
     if 48 \<le> n \<and> n \<le> 57 then Some (n - 48)
     else if 97 \<le> n \<and> n \<le> 102 then Some (n - 87)
     else if 65 \<le> n \<and> n \<le> 70 then Some (n - 55)
     else None)"

fun from_hex :: "int \<Rightarrow> string \<Rightarrow> int option" where
  "from_hex acc [] = Some acc"
| "from_hex acc (c # cs) =
    (case hex_value c of None \<Rightarrow> None | Some d \<Rightarrow> from_hex (16 * acc + d) cs)"

definition is_hex_digits :: "string \<Rightarrow> bool" where
  "is_hex_digits s = list_all (\<lambda>c. hex_value c \<noteq> None) s"

definition is_Hex :: "string \<Rightarrow> bool" where
  "is_Hex h = (startsWith h ''0x'' \<and> even (length h) \<and> is_hex_digits (drop 2 h))"

definition pad_right :: "string \<Rightarrow> string" where
  "pad_right d = d @ replicate ((length d + 63) div 64 * 64 - length d) (CHR ''0'')"

text \<open>The UTF-8 bytes of a string, in hexadecimal: one byte for a code unit below 128,
  two for the others.\<close>

definition utf8_hex :: "string \<Rightarrow> string" where
  "utf8_hex s =
    concat (map (\<lambda>c. let n = (of_char c :: int) in
                      if n < 128 then to_hex 2 n
                      else to_hex 2 (192 + n div 64) @ to_hex 2 (128 + n mod 64)) s)"

text \<open>A prepared parameter: whether it is dynamic, and its encoding.\<close>

definition prepareParam :: "abi_parameter \<Rightarrow> abi_value \<Rightarrow> error + bool \<times> string" where
  "prepareParam p v =
    (if param_type p = ''uint256'' then
       (case v of
          AbiBigInt n \<Rightarrow>
            if 0 \<le> n \<and> n \<le> maxUint256 then Inr (False, to_hex 64 n)
            else Inl (Rejected ''IntegerOutOfRangeError'')
        | _ \<Rightarrow> Inl (Rejected ''InvalidAbiValue''))
     else if param_type p = ''bool'' then
       (case v of
          AbiBoolean b \<Rightarrow> Inr (False, to_hex 64 (if b then 1 else 0))
        | _ \<Rightarrow> Inl (Rejected ''InvalidAbiValue''))
     else if param_type p = ''bytes'' then
       (case v of
          AbiString h \<Rightarrow>
            if is_Hex h then
              Inr (True, to_hex 64 (int (length (drop 2 h)) div 2) @ pad_right (drop 2 h))
            else Inl (Rejected ''InvalidHex'')
        | _ \<Rightarrow> Inl (Rejected ''InvalidAbiValue''))
     else if param_type p = ''string'' then
       (case v of
          AbiString s \<Rightarrow>
            Inr (True, to_hex 64 (int (length (utf8_hex s)) div 2) @ pad_right (utf8_hex s))
        | _ \<Rightarrow> Inl (Rejected ''InvalidAbiValue''))
     else Inl (Rejected ''InvalidAbiType''))"

fun prepareParams :: "abi_parameter list \<Rightarrow> abi_value list \<Rightarrow> error + (bool \<times> string) list" where
  "prepareParams [] [] = Inr []"
| "prepareParams (p # ps) (v # vs) =
    (case prepareParam p v of
       Inl e \<Rightarrow> Inl e
     | Inr x \<Rightarrow> (case prepareParams ps vs of Inl e \<Rightarrow> Inl e | Inr xs \<Rightarrow> Inr (x # xs)))"
| "prepareParams ps vs = Inl (Rejected ''AbiEncodingLengthMismatchError'')"

fun staticSize :: "(bool \<times> string) list \<Rightarrow> int" where
  "staticSize [] = 0"
| "staticSize ((dyn, e) # xs) = (if dyn then 32 else int (length e) div 2) + staticSize xs"

fun staticParams :: "int \<Rightarrow> (bool \<times> string) list \<Rightarrow> string" where
  "staticParams off [] = []"
| "staticParams off ((dyn, e) # xs) =
    (if dyn then to_hex 64 off @ staticParams (off + int (length e) div 2) xs
     else e @ staticParams off xs)"

fun dynamicParams :: "(bool \<times> string) list \<Rightarrow> string" where
  "dynamicParams [] = []"
| "dynamicParams ((dyn, e) # xs) = (if dyn then e else []) @ dynamicParams xs"

definition abi_encode :: "abi_parameter list \<Rightarrow> abi_value list \<Rightarrow> error + string" where
  "abi_encode ps vs =
    (case prepareParams ps vs of
       Inl e \<Rightarrow> Inl e
     | Inr xs \<Rightarrow> Inr (''0x'' @ staticParams (staticSize xs) xs @ dynamicParams xs))"

subsection \<open>Reading an encoded signature back\<close>

text \<open>What the verifier contract reads from the seven-field tuple: the head word at each
  position, and for the two dynamic fields the bytes at the offset their head word gives
  (in hexadecimal). \<open>None\<close> where the string is too short or not hexadecimal.\<close>

fun skip :: "int \<Rightarrow> 'a list \<Rightarrow> 'a list" where
  "skip n [] = []"
| "skip n (x # xs) = (if n \<le> 0 then x # xs else skip (n - 1) xs)"

fun first :: "int \<Rightarrow> 'a list \<Rightarrow> 'a list option" where
  "first n [] = (if n \<le> 0 then Some [] else None)"
| "first n (x # xs) = (if n \<le> 0 then Some [] else map_option (Cons x) (first (n - 1) xs))"

definition word_at :: "string \<Rightarrow> int \<Rightarrow> int option" where
  "word_at h off =
    (case first 64 (skip (2 + 2 * off) h) of None \<Rightarrow> None | Some cs \<Rightarrow> from_hex 0 cs)"

definition bytes_at :: "string \<Rightarrow> int \<Rightarrow> string option" where
  "bytes_at h off =
    (case word_at h off of
       None \<Rightarrow> None
     | Some len \<Rightarrow> first (2 * len) (skip (2 + 2 * (off + 32)) h))"

record signature_fields =
  authenticatorData_bytes :: string
  clientDataJSON_bytes :: string
  challengeLocation :: int
  responseTypeLocation :: int
  r_field :: int
  s_field :: int
  usePrecompiled :: int

definition decodeSignature :: "string \<Rightarrow> signature_fields option" where
  "decodeSignature h =
    (case word_at h 0 of None \<Rightarrow> None | Some offA \<Rightarrow>
     case word_at h 32 of None \<Rightarrow> None | Some offJ \<Rightarrow>
     case word_at h 64 of None \<Rightarrow> None | Some c \<Rightarrow>
     case word_at h 96 of None \<Rightarrow> None | Some t \<Rightarrow>
     case word_at h 128 of None \<Rightarrow> None | Some r \<Rightarrow>
     case word_at h 160 of None \<Rightarrow> None | Some s \<Rightarrow>
     case word_at h 192 of None \<Rightarrow> None | Some u \<Rightarrow>
     case bytes_at h offA of None \<Rightarrow> None | Some a \<Rightarrow>
     case bytes_at h offJ of None \<Rightarrow> None | Some j \<Rightarrow>
       Some \<lparr>authenticatorData_bytes = a, clientDataJSON_bytes = j, challengeLocation = c,
             responseTypeLocation = t, r_field = r, s_field = s, usePrecompiled = u\<rparr>)"

section \<open>A concrete run\<close>

text \<open>A passkey server, an authenticator and helpers that answer one signing request,
  used to run the signer on concrete inputs.\<close>

definition sample_serverUrl :: string where
  "sample_serverUrl = ''https://passkeys.example''"

definition sample_key :: WebAuthnKey where
  "sample_key = \<lparr>pubX = 3, pubY = 4\<rparr>"

definition sample_params :: WebAuthnModularSignerParams where
  "sample_params =
    \<lparr>signerContractAddress_param = None,
     passkeyName = ''alice'',
     passkeyServerUrl = sample_serverUrl,
     pubKey_param = None,
     mode_param = None\<rparr>"

definition sample_challengePayload :: jsval where
  "sample_challengePayload =
    JObj [(''challenge'', JStr ''SGVsbG8''),
          (''allowCredentials'', JArr [JObj [(''id'', JStr ''Y3JlZA''), (''type'', JStr ''public-key'')]])]"

definition sample_options :: PublicKeyCredentialRequestOptionsJSON where
  "sample_options =
    \<lparr>challenge = JStr ''SGVsbG8'',
     allowCredentials = JArr [JObj [(''id'', JStr ''Y3JlZA''), (''type'', JStr ''public-key'')]],
     userVerification = ''required''\<rparr>"

definition sample_clientDataJSON :: string where
  "sample_clientDataJSON =
    [CHR ''{'', CHR 0x22] @ ''type'' @ [CHR 0x22, CHR '':'', CHR 0x22] @ ''webauthn.get''
    @ [CHR 0x22, CHR '','', CHR 0x22] @ ''challenge'' @ [CHR 0x22, CHR '':'', CHR 0x22]
    @ ''SGVsbG8''
    @ [CHR 0x22, CHR '','', CHR 0x22] @ ''origin'' @ [CHR 0x22, CHR '':'', CHR 0x22]
    @ ''https://example.com'' @ [CHR 0x22, CHR ''}'']"

definition sample_clientDataJSON_base64 :: string where
  "sample_clientDataJSON_base64 =
    ''eyJ0eXBlIjoid2ViYXV0aG4uZ2V0IiwiY2hhbGxlbmdlIjoiU0dWc2JHOCIsIm9yaWdpbiI6Imh0dHBzOi8vZXhhbXBsZS5jb20ifQ==''"

definition sample_cred :: jsval where
  "sample_cred =
    JObj [(''id'', JStr ''Y3JlZA''),
          (''rawId'', JStr ''Y3JlZA''),
          (''response'',
             JObj [(''clientDataJSON'', JStr sample_clientDataJSON_base64),
                   (''authenticatorData'', JStr ''EREREREREREREREREREREREREREREREREREREREREREFAAAAAQ==''),
                   (''signature'', JStr ''MAYCAQUCAQc='')]),
          (''type'', JStr ''public-key'')]"

definition sample_verifyResult :: jsval where
  "sample_verifyResult =
    JObj [(''success'', JBool True),
          (''authenticatorData'', JStr ''EREREREREREREREREREREREREREREREREREREREREREFAAAAAQ==''),
          (''signature'', JStr ''MAYCAQUCAQc='')]"

definition sample_rejection :: jsval where
  "sample_rejection = JObj [(''success'', JBool False)]"

definition sample_authenticatorData :: "byte list" where
  "sample_authenticatorData = replicate 32 0x11 @ [0x05, 0x00, 0x00, 0x00, 0x01]"

definition sample_signature :: "byte list" where
  "sample_signature = [0x30, 0x06, 0x02, 0x01, 0x05, 0x02, 0x01, 0x07]"

definition sample_fetch :: "jsval \<Rightarrow> request \<Rightarrow> error + response" where
  "sample_fetch verdict req =
    (if url req = sample_serverUrl @ ''/sign-initiate''
     then Inr \<lparr>status = 200, json = Inr sample_challengePayload\<rparr>
     else if url req = sample_serverUrl @ ''/sign-verify''
     then Inr \<lparr>status = 200, json = Inr verdict\<rparr>
     else Inl (Rejected ''Failed to fetch''))"

definition sample_b64ToBytes :: "jsval \<Rightarrow> error + byte list" where
  "sample_b64ToBytes v =
    (if v = JStr ''EREREREREREREREREREREREREREREREREREREREREREFAAAAAQ==''
     then Inr sample_authenticatorData
     else if v = JStr ''MAYCAQUCAQc='' then Inr sample_signature
     else Inl (Rejected ''InvalidCharacterError''))"

definition sample_uint8ArrayToHexString :: "byte list \<Rightarrow> string" where
  "sample_uint8ArrayToHexString bs = ''0x'' @ concat (map (\<lambda>b. to_hex 2 (uint b)) bs)"

definition sample_atob :: "jsval \<Rightarrow> error + string" where
  "sample_atob v =
    (if v = JStr sample_clientDataJSON_base64 then Inr sample_clientDataJSON
     else Inl (Rejected ''InvalidCharacterError''))"

definition sample_findQuoteIndices :: "string \<Rightarrow> error + quote_indices" where
  "sample_findQuoteIndices s =
    (if s = sample_clientDataJSON then Inr \<lparr>beforeType = 9, beforeChallenge = 36\<rparr>
     else Inl (Rejected ''FieldNotFound''))"

definition sample_parseAndNormalizeSig :: "string \<Rightarrow> error + normalized_sig" where
  "sample_parseAndNormalizeSig h =
    (if h = ''0x3006020105020107'' then Inr \<lparr>sig_r = 5, sig_s = 7\<rparr>
     else Inl (Rejected ''MalformedSignature''))"

definition sample_isRIP7212SupportedNetwork :: "nat \<Rightarrow> bool" where
  "sample_isRIP7212SupportedNetwork c = (c \<in> set [80002, 11155420])"

definition sample_hash :: string where
  "sample_hash = ''0x48656c6c6f''"

definition sample_validateTypedData :: "validate_args \<Rightarrow> error + unit" where
  "sample_validateTypedData a =
    (case v_primaryType a of
       JStr p \<Rightarrow>
         (case get_prop (v_types a) p of
            Inr (JArr members) \<Rightarrow> Inr ()
          | _ \<Rightarrow> Inl (Rejected ''InvalidPrimaryTypeError''))
     | _ \<Rightarrow> Inl (Rejected ''InvalidPrimaryTypeError''))"

definition sample_env :: "jsval \<Rightarrow> env" where
  "sample_env verdict =
    \<lparr>toWebAuthnPubKey = (\<lambda>name server m. Inr (Some sample_key)),
     fetch = sample_fetch verdict,
     startAuthentication =
       (\<lambda>options.
          case challenge options of
            JStr c \<Rightarrow>
              if options = sample_options then Inr sample_cred
              else Inl (Rejected ''NotAllowedError'')
          | _ \<Rightarrow> Inl TypeError),
     atob = sample_atob,
     b64ToBytes = sample_b64ToBytes,
     uint8ArrayToHexString = sample_uint8ArrayToHexString,
     findQuoteIndices = sample_findQuoteIndices,
     parseAndNormalizeSig = sample_parseAndNormalizeSig,
     isRIP7212SupportedNetwork = sample_isRIP7212SupportedNetwork,
     encodeAbiParameters = abi_encode,
     getTypesForEIP712Domain = (\<lambda>d. JArr []),
     validateTypedData = sample_validateTypedData,
     hashTypedData = (\<lambda>typedData. Inr sample_hash)\<rparr>"

definition sample_world :: world where
  "sample_world = \<lparr>client_chain = Inr 11155111, calls = []\<rparr>"

definition sample_signer :: ModularSigner where
  "sample_signer =
    \<lparr>address = ''0x0000000000000000000000000000000000000000'',
     signerContractAddress = WEBAUTHN_SIGNER_CONTRACT,
     pubKey = Some sample_key,
     chainId = 11155111,
     serverUrl = sample_serverUrl\<rparr>"

definition sample_message :: SignableMessage where
  "sample_message = MessageString ''0x48656c6c6f''"




definition sample_malformed_typedData :: TypedDataDefinition where
  "sample_malformed_typedData =
    \<lparr>domain = JObj [(''name'', JStr ''Ether Mail''), (''version'', JStr ''1'')],
     types = JObj [(''Person'', JArr [JObj [(''name'', JStr ''name''), (''type'', JStr ''string'')]])],
     primaryType = JStr ''Mail'',
     message = JObj [(''contents'', JStr ''Hello'')]\<rparr>"

text \<open>A caller-supplied key whose coordinates are not 256-bit unsigned numbers, and the
  signer built from it.\<close>

definition sample_oversized_params :: WebAuthnModularSignerParams where
  "sample_oversized_params = sample_params\<lparr>pubKey_param := Some \<lparr>pubX = 2 ^ 256, pubY = - 1\<rparr>\<rparr>"

definition sample_oversized_signer :: ModularSigner where
  "sample_oversized_signer = sample_signer\<lparr>pubKey := Some \<lparr>pubX = 2 ^ 256, pubY = - 1\<rparr>\<rparr>"

definition sample_values :: "abi_value list" where
  "sample_values =
    [AbiString ''0x11111111111111111111111111111111111111111111111111111111111111110500000001'',
     AbiString sample_clientDataJSON,
     AbiBigInt 36, AbiBigInt 9, AbiBigInt 5, AbiBigInt 7, AbiBoolean False]"

definition sample_encodedSignature :: string where
  "sample_encodedSignature =
    ''0x00000000000000000000000000000000000000000000000000000000000000e000000000000000''
     @ ''00000000000000000000000000000000000000000000000140000000000000000000000000000000''
     @ ''00000000000000000000000000000000240000000000000000000000000000000000000000000000''
     @ ''00000000000000000900000000000000000000000000000000000000000000000000000000000000''
     @ ''05000000000000000000000000000000000000000000000000000000000000000700000000000000''
     @ ''00000000000000000000000000000000000000000000000000000000000000000000000000000000''
     @ ''00000000000000000000000000000000251111111111111111111111111111111111111111111111''
     @ ''11111111111111111105000000010000000000000000000000000000000000000000000000000000''
     @ ''00000000000000000000000000000000000000000000000000000000000000004c7b227479706522''
     @ ''3a22776562617574686e2e676574222c226368616c6c656e6765223a2253475673624738222c226f''
     @ ''726967696e223a2268747470733a2f2f6578616d706c652e636f6d227d0000000000000000000000''
     @ ''000000000000000000''"

text \<open>The dummy signature of a signer on the same chain.\<close>

definition sample_dummySignature :: string where
  "sample_dummySignature =
    ''0x00000000000000000000000000000000000000000000000000000000000000e000000000000000''
     @ ''00000000000000000000000000000000000000000000000140ffffffffffffffffffffffffffffff''
     @ ''ffffffffffffffffffffffffffffffffffffffffffffffffffffffffffffffffffffffffffffffff''
     @ ''ffffffffffffffffff1890aa80be385102083701a2907066f8bd9f2a28b717671c71c71c71c71c71''
     @ ''c7312155017c70a204106e034520e0cdf17b3e54516e2ece38e38e38e38e38e38e00000000000000''
     @ ''00000000000000000000000000000000000000000000000000000000000000000000000000000000''
     @ ''0000000000000000000000000000000025ffffffffffffffffffffffffffffffffffffffffffffff''
     @ ''ffffffffffffffffffffffffffff0000000000000000000000000000000000000000000000000000''
     @ ''0000000000000000000000000000000000000000000000000000000000000000707b227479706522''
     @ ''3a22776562617574686e2e676574222c226368616c6c656e6765223a226161616161616161616161''
     @ ''6161616161616161616161616161616161616161616161616161616161616161222c226f72696769''
     @ ''6e223a2268747470733a2f2f6578616d706c652e636f6d227d000000000000000000000000000000''
     @ ''00''"


definition sample_build_calls :: "event list" where
  "sample_build_calls =
    [CallB64ToBytes (JStr ''EREREREREREREREREREREREREREREREREREREREREREFAAAAAQ==''),
     CallUint8ArrayToHexString sample_authenticatorData,
     CallAtob (JStr sample_clientDataJSON_base64),
     CallFindQuoteIndices sample_clientDataJSON,
     CallB64ToBytes (JStr ''MAYCAQUCAQc=''),
     CallUint8ArrayToHexString sample_signature,
     CallParseAndNormalizeSig ''0x3006020105020107'',
     CallIsRIP7212SupportedNetwork 11155111,
     CallEncodeAbiParameters signature_abi sample_values]"

definition sample_sign_calls :: "event list" where
  "sample_sign_calls =
    [CallFetch (signInitiateRequest sample_serverUrl ''48656c6c6f''),
     CallStartAuthentication sample_options,
     CallFetch (signVerifyRequest sample_serverUrl sample_cred)]"


text \<open>The calls made between two states of the world.\<close>

definition new_calls :: "world \<Rightarrow> world \<Rightarrow> event list" where
  "new_calls w w' = drop (length (calls w)) (calls w')"

text \<open>Two properties of an action, for the actions of a signer once it is built: its
  result and its calls do not depend on the chain the client answers for; and everything
  it does is to add calls, none of them a request for the chain id.\<close>

definition ignores_client_chain :: "'a io \<Rightarrow> bool" where
  "ignores_client_chain m =
    (\<forall>w x. m (w\<lparr>client_chain := x\<rparr>) = (fst (m w), (snd (m w))\<lparr>client_chain := x\<rparr>))"

definition never_resolves_chain :: "'a io \<Rightarrow> bool" where
  "never_resolves_chain m =
    (\<forall>w. \<exists>es. calls (snd (m w)) = calls w @ es \<and> CallGetChainId \<notin> set es)"


section \<open>Running the monad\<close>

lemma io_bind_call:
  "io_bind (io_call ev r) f w =
    (case r of Inl e \<Rightarrow> (Inl e, w\<lparr>calls := calls w @ [ev]\<rparr>)
             | Inr x \<Rightarrow> f x (w\<lparr>calls := calls w @ [ev]\<rparr>))"
  by (simp add: io_bind_def io_call_def split: sum.splits)

lemma io_bind_lift:
  "io_bind (io_lift r) f w = (case r of Inl e \<Rightarrow> (Inl e, w) | Inr x \<Rightarrow> f x w)"
  by (simp add: io_bind_def io_lift_def split: sum.splits)

lemma io_call_apply: "io_call ev r w = (r, w\<lparr>calls := calls w @ [ev]\<rparr>)"
  by (simp add: io_call_def)

lemma io_throw_apply: "io_throw e w = (Inl e, w)"
  by (simp add: io_throw_def)

lemma io_return_apply: "io_return x w = (Inr x, w)"
  by (simp add: io_return_def)

lemma io_bind_getChainId:
  "io_bind getChainId f w =
    (case client_chain w of
       Inl e \<Rightarrow> (Inl e, w\<lparr>calls := calls w @ [CallGetChainId]\<rparr>)
     | Inr c \<Rightarrow> f c (w\<lparr>calls := calls w @ [CallGetChainId]\<rparr>))"
  by (simp add: io_bind_def getChainId_def split: sum.splits)

lemmas io_simps = io_bind_call io_bind_lift io_call_apply io_throw_apply io_return_apply

section \<open>What a successful run went through\<close>

lemma buildSignature_Inr:
  assumes "buildSignature env chain cred verifyResult w = (Inr sig, w')"
  shows "\<exists>authData authBytes credResponse encoded clientData indices signature sigBytes rs.
      get_prop verifyResult ''authenticatorData'' = Inr authData \<and>
      b64ToBytes env authData = Inr authBytes \<and>
      get_prop cred ''response'' = Inr credResponse \<and>
      get_prop credResponse ''clientDataJSON'' = Inr encoded \<and>
      atob env encoded = Inr clientData \<and>
      findQuoteIndices env clientData = Inr indices \<and>
      get_prop verifyResult ''signature'' = Inr signature \<and>
      b64ToBytes env signature = Inr sigBytes \<and>
      parseAndNormalizeSig env (uint8ArrayToHexString env sigBytes) = Inr rs \<and>
      encodeAbiParameters env signature_abi
        [AbiString (uint8ArrayToHexString env authBytes),
         AbiString clientData,
         AbiBigInt (beforeChallenge indices),
         AbiBigInt (beforeType indices),
         AbiBigInt (sig_r rs),
         AbiBigInt (sig_s rs),
         AbiBoolean (isRIP7212SupportedNetwork env chain)] = Inr sig"
  using assms
  by (auto simp: buildSignature_def io_simps Let_def split: sum.splits)

lemma signMessageUsingWebAuthn_Inr:
  assumes "signMessageUsingWebAuthn env server chain msg w = (Inr sig, w')"
  shows "\<exists>content r1 body1 ch al cred r2 verifyResult verdict.
      messageContent msg = Inr content \<and>
      fetch env (signInitiateRequest server (formattedMessage content)) = Inr r1 \<and>
      json r1 = Inr body1 \<and>
      get_prop body1 ''challenge'' = Inr ch \<and>
      get_prop body1 ''allowCredentials'' = Inr al \<and>
      startAuthentication env
        \<lparr>challenge = ch, allowCredentials = al, userVerification = ''required''\<rparr> = Inr cred \<and>
      fetch env (signVerifyRequest server cred) = Inr r2 \<and>
      json r2 = Inr verifyResult \<and>
      get_prop verifyResult ''success'' = Inr verdict \<and>
      truthy verdict \<and>
      buildSignature env chain cred verifyResult
        (w\<lparr>calls := calls w @
           [CallFetch (signInitiateRequest server (formattedMessage content)),
            CallStartAuthentication
              \<lparr>challenge = ch, allowCredentials = al, userVerification = ''required''\<rparr>,
            CallFetch (signVerifyRequest server cred)]\<rparr>) = (Inr sig, w')"
  using assms
  by (auto simp: signMessageUsingWebAuthn_def io_simps Let_def split: sum.splits if_splits)

lemma buildSignature_calls:
  "\<exists>rest. calls (snd (buildSignature env chain cred verifyResult w)) = calls w @ rest"
  by (simp add: buildSignature_def io_simps Let_def split: sum.splits)

lemma buildSignature_calls_after:
  "\<exists>rest. calls (snd (buildSignature env chain cred verifyResult (w\<lparr>calls := calls w @ e # es\<rparr>))) =
           calls w @ e # rest"
proof -
  obtain rest where
    "calls (snd (buildSignature env chain cred verifyResult (w\<lparr>calls := calls w @ e # es\<rparr>))) =
       calls (w\<lparr>calls := calls w @ e # es\<rparr>) @ rest"
    using buildSignature_calls by blast
  then have "calls (snd (buildSignature env chain cred verifyResult (w\<lparr>calls := calls w @ e # es\<rparr>))) =
       calls w @ e # (es @ rest)"
    by simp
  then show ?thesis ..
qed

lemma signMessageUsingWebAuthn_first_call:
  assumes "messageContent msg = Inr content"
  shows "\<exists>rest. calls (snd (signMessageUsingWebAuthn env server chain msg w)) =
           calls w @ CallFetch (signInitiateRequest server (formattedMessage content)) # rest"
  using assms buildSignature_calls_after
  by (simp add: signMessageUsingWebAuthn_def io_simps Let_def io_throw_def split: sum.splits)



lemma typesWithDomain_array:
  "typesWithDomain (JArr []) (JArr [JStr ''a'']) =
     JObj [(''0'', JStr ''a''), (''EIP712Domain'', JArr [])]"
  by code_simp

lemma typesWithDomain_string:
  "typesWithDomain (JArr []) (JStr ''ab'') =
     JObj [(''0'', JStr ''a''), (''1'', JStr ''b''), (''EIP712Domain'', JArr [])]"
  by code_simp

section \<open>The concrete run\<close>

lemma sample_encoding: "abi_encode signature_abi sample_values = Inr sample_encodedSignature"
  by code_simp

lemma sample_authenticatorData_hex:
  "sample_uint8ArrayToHexString sample_authenticatorData =
     ''0x11111111111111111111111111111111111111111111111111111111111111110500000001''"
  by code_simp

lemma sample_signature_hex:
  "sample_uint8ArrayToHexString sample_signature = ''0x3006020105020107''"
  by code_simp

lemma sample_chain_unsupported: "sample_isRIP7212SupportedNetwork 11155111 = False"
  by (simp add: sample_isRIP7212SupportedNetwork_def)

lemma sample_build:
  "buildSignature (sample_env v) 11155111 sample_cred sample_verifyResult w =
    (Inr sample_encodedSignature, w\<lparr>calls := calls w @ sample_build_calls\<rparr>)"
  using sample_encoding
  by (simp add: buildSignature_def io_simps Let_def sample_env_def sample_cred_def
      sample_verifyResult_def sample_b64ToBytes_def sample_atob_def sample_findQuoteIndices_def
      sample_parseAndNormalizeSig_def sample_authenticatorData_hex sample_signature_hex
      sample_chain_unsupported sample_values_def sample_build_calls_def)

lemma sample_initiate:
  "fetch (sample_env v) (signInitiateRequest sample_serverUrl m) =
     Inr \<lparr>status = 200, json = Inr sample_challengePayload\<rparr>"
  by (simp add: sample_env_def sample_fetch_def signInitiateRequest_def)

lemma sample_verify:
  "fetch (sample_env v) (signVerifyRequest sample_serverUrl c) = Inr \<lparr>status = 200, json = Inr v\<rparr>"
  by (simp add: sample_env_def sample_fetch_def signVerifyRequest_def sample_serverUrl_def)

lemma sample_authentication:
  "startAuthentication (sample_env v) sample_options = Inr sample_cred"
  by (simp add: sample_env_def) (simp add: sample_options_def)

lemma sample_payload_props:
  "get_prop sample_challengePayload ''challenge'' = Inr (challenge sample_options)"
  "get_prop sample_challengePayload ''allowCredentials'' = Inr (allowCredentials sample_options)"
  by (simp_all add: sample_challengePayload_def sample_options_def)

lemma sample_options_eq:
  "\<lparr>challenge = challenge sample_options, allowCredentials = allowCredentials sample_options,
    userVerification = ''required''\<rparr> = sample_options"
  by (simp add: sample_options_def)

lemma sample_verdict: "get_prop sample_verifyResult ''success'' = Inr (JBool True)"
  by (simp add: sample_verifyResult_def)

lemma sample_formatted: "formattedMessage ''0x48656c6c6f'' = ''48656c6c6f''"
  by (simp add: formattedMessage_def startsWith_def)

lemma sample_signMessage:
  "signMessage (sample_env sample_verifyResult) sample_signer sample_message w =
    (Inr sample_encodedSignature,
     w\<lparr>calls := calls w @ sample_sign_calls @ sample_build_calls\<rparr>)"
  by (simp add: signMessage_def signMessageUsingWebAuthn_def io_simps Let_def sample_signer_def
      sample_message_def sample_formatted sample_initiate sample_verify sample_payload_props
      sample_options_eq sample_authentication sample_build sample_sign_calls_def
      sample_verdict)

lemma sample_toWebAuthnSigner:
  "toWebAuthnSigner (sample_env v) sample_params sample_world =
     (Inr sample_signer,
      sample_world\<lparr>calls := [CallToWebAuthnPubKey ''alice'' sample_serverUrl Register, CallGetChainId]\<rparr>)"
  by (simp add: toWebAuthnSigner_def io_simps io_bind_getChainId Let_def sample_env_def
      sample_params_def sample_world_def sample_signer_def)

lemma sample_oversized_toWebAuthnSigner:
  "toWebAuthnSigner (sample_env v) sample_oversized_params sample_world =
     (Inr sample_oversized_signer, sample_world\<lparr>calls := [CallGetChainId]\<rparr>)"
  by (simp add: toWebAuthnSigner_def io_bind_def io_return_def getChainId_def
      sample_oversized_params_def sample_oversized_signer_def sample_params_def
      sample_signer_def sample_world_def)

section \<open>The encoded signature\<close>

text \<open>
  C1. Every signature \<^verbatim>\<open>signMessage\<close> returns is what \<^verbatim>\<open>encodeAbiParameters\<close> gives for the
  seven parameters \<^verbatim>\<open>authenticatorData: bytes\<close>, \<^verbatim>\<open>clientDataJSON: string\<close>,
  \<^verbatim>\<open>challengeLocation: uint256\<close>, \<^verbatim>\<open>responseTypeLocation: uint256\<close>, \<^verbatim>\<open>r: uint256\<close>,
  \<^verbatim>\<open>s: uint256\<close>, \<^verbatim>\<open>usePrecompiled: bool\<close>, in this order, and for the values: the hex form
  of the decoded authenticator data of the verification result, the decoded client data
  of the credential, the challenge offset and then the type offset the locator found in
  that client data, the \<open>r\<close> and \<open>s\<close> of the normalised signature, and the network
  capability of the signer's chain.
\<close>

theorem signMessage_encodes_signature_tuple:
  assumes "signMessage env signer msg w = (Inr sig, w')"
  shows "\<exists>cred verifyResponse verifyResult authData authBytes credResponse encoded clientData
           indices signature sigBytes rs.
      fetch env (signVerifyRequest (serverUrl signer) cred) = Inr verifyResponse \<and>
      json verifyResponse = Inr verifyResult \<and>
      get_prop verifyResult ''authenticatorData'' = Inr authData \<and>
      b64ToBytes env authData = Inr authBytes \<and>
      get_prop cred ''response'' = Inr credResponse \<and>
      get_prop credResponse ''clientDataJSON'' = Inr encoded \<and>
      atob env encoded = Inr clientData \<and>
      findQuoteIndices env clientData = Inr indices \<and>
      get_prop verifyResult ''signature'' = Inr signature \<and>
      b64ToBytes env signature = Inr sigBytes \<and>
      parseAndNormalizeSig env (uint8ArrayToHexString env sigBytes) = Inr rs \<and>
      encodeAbiParameters env
        [\<lparr>param_name = ''authenticatorData'', param_type = ''bytes''\<rparr>,
         \<lparr>param_name = ''clientDataJSON'', param_type = ''string''\<rparr>,
         \<lparr>param_name = ''challengeLocation'', param_type = ''uint256''\<rparr>,
         \<lparr>param_name = ''responseTypeLocation'', param_type = ''uint256''\<rparr>,
         \<lparr>param_name = ''r'', param_type = ''uint256''\<rparr>,
         \<lparr>param_name = ''s'', param_type = ''uint256''\<rparr>,
         \<lparr>param_name = ''usePrecompiled'', param_type = ''bool''\<rparr>]
        [AbiString (uint8ArrayToHexString env authBytes),
         AbiString clientData,
         AbiBigInt (beforeChallenge indices),
         AbiBigInt (beforeType indices),
         AbiBigInt (sig_r rs),
         AbiBigInt (sig_s rs),
         AbiBoolean (isRIP7212SupportedNetwork env (chainId signer))] = Inr sig"
proof -
  from assms obtain cred r2 verifyResult w1 where
    verify: "fetch env (signVerifyRequest (serverUrl signer) cred) = Inr r2" "json r2 = Inr verifyResult"
    and build: "buildSignature env (chainId signer) cred verifyResult w1 = (Inr sig, w')"
    unfolding signMessage_def by (blast dest: signMessageUsingWebAuthn_Inr)
  from buildSignature_Inr [OF build] verify show ?thesis
    unfolding signature_abi_def by blast
qed

theorem signMessage_encodes_signature_tuple_witness:
  "signMessage (sample_env sample_verifyResult) sample_signer sample_message sample_world =
     (Inr sample_encodedSignature,
      sample_world\<lparr>calls := sample_sign_calls @ sample_build_calls\<rparr>) \<and>
   (\<exists>cred verifyResponse verifyResult authData authBytes credResponse encoded clientData
           indices signature sigBytes rs.
      fetch (sample_env sample_verifyResult) (signVerifyRequest (serverUrl sample_signer) cred) = Inr verifyResponse \<and>
      json verifyResponse = Inr verifyResult \<and>
      get_prop verifyResult ''authenticatorData'' = Inr authData \<and>
      b64ToBytes (sample_env sample_verifyResult) authData = Inr authBytes \<and>
      get_prop cred ''response'' = Inr credResponse \<and>
      get_prop credResponse ''clientDataJSON'' = Inr encoded \<and>
      atob (sample_env sample_verifyResult) encoded = Inr clientData \<and>
      findQuoteIndices (sample_env sample_verifyResult) clientData = Inr indices \<and>
      get_prop verifyResult ''signature'' = Inr signature \<and>
      b64ToBytes (sample_env sample_verifyResult) signature = Inr sigBytes \<and>
      parseAndNormalizeSig (sample_env sample_verifyResult) (uint8ArrayToHexString (sample_env sample_verifyResult) sigBytes) = Inr rs \<and>
      encodeAbiParameters (sample_env sample_verifyResult)
        [\<lparr>param_name = ''authenticatorData'', param_type = ''bytes''\<rparr>,
         \<lparr>param_name = ''clientDataJSON'', param_type = ''string''\<rparr>,
         \<lparr>param_name = ''challengeLocation'', param_type = ''uint256''\<rparr>,
         \<lparr>param_name = ''responseTypeLocation'', param_type = ''uint256''\<rparr>,
         \<lparr>param_name = ''r'', param_type = ''uint256''\<rparr>,
         \<lparr>param_name = ''s'', param_type = ''uint256''\<rparr>,
         \<lparr>param_name = ''usePrecompiled'', param_type = ''bool''\<rparr>]
        [AbiString (uint8ArrayToHexString (sample_env sample_verifyResult) authBytes),
         AbiString clientData,
         AbiBigInt (beforeChallenge indices),
         AbiBigInt (beforeType indices),
         AbiBigInt (sig_r rs),
         AbiBigInt (sig_s rs),
         AbiBoolean (isRIP7212SupportedNetwork (sample_env sample_verifyResult) (chainId sample_signer))] = Inr sample_encodedSignature)"
proof -
  have run: "signMessage (sample_env sample_verifyResult) sample_signer sample_message sample_world =
     (Inr sample_encodedSignature,
      sample_world\<lparr>calls := sample_sign_calls @ sample_build_calls\<rparr>)"
    using sample_signMessage [of sample_world] by (simp add: sample_world_def)
  show ?thesis
    by (rule conjI [OF run signMessage_encodes_signature_tuple [OF run]])
qed

section \<open>A rejected assertion\<close>

text \<open>
  C2. When the run reaches the server's verification and the \<^verbatim>\<open>success\<close> field of the
  verification result is false (or anything else JavaScript takes for false),
  \<^verbatim>\<open>signMessage\<close> throws \<^verbatim>\<open>Error("Signature not verified")\<close>, and the calls it has made are
  the two requests and the authenticator prompt: nothing is decoded, located, normalised
  or encoded.
\<close>

theorem signMessage_rejected_assertion:
  assumes "messageContent msg = Inr content"
    and "fetch env (signInitiateRequest (serverUrl signer) (formattedMessage content)) = Inr r1"
    and "json r1 = Inr body1"
    and "get_prop body1 ''challenge'' = Inr ch"
    and "get_prop body1 ''allowCredentials'' = Inr al"
    and "startAuthentication env
           \<lparr>challenge = ch, allowCredentials = al, userVerification = ''required''\<rparr> = Inr cred"
    and "fetch env (signVerifyRequest (serverUrl signer) cred) = Inr r2"
    and "json r2 = Inr verifyResult"
    and "get_prop verifyResult ''success'' = Inr verdict"
    and "\<not> truthy verdict"
  shows "signMessage env signer msg w =
    (Inl (Error ''Signature not verified''),
     w\<lparr>calls := calls w @
        [CallFetch (signInitiateRequest (serverUrl signer) (formattedMessage content)),
         CallStartAuthentication
           \<lparr>challenge = ch, allowCredentials = al, userVerification = ''required''\<rparr>,
         CallFetch (signVerifyRequest (serverUrl signer) cred)]\<rparr>)"
  using assms
  by (simp add: signMessage_def signMessageUsingWebAuthn_def io_simps Let_def)

theorem signMessage_rejected_assertion_witness:
  "get_prop sample_rejection ''success'' = Inr (JBool False) \<and>
   \<not> truthy (JBool False) \<and>
   signMessage (sample_env sample_rejection) sample_signer sample_message sample_world =
     (Inl (Error ''Signature not verified''), sample_world\<lparr>calls := sample_sign_calls\<rparr>)"
proof -
  have content: "messageContent sample_message = Inr ''0x48656c6c6f''"
    by (simp add: sample_message_def)
  have server: "serverUrl sample_signer = sample_serverUrl"
    by (simp add: sample_signer_def)
  have verdict: "get_prop sample_rejection ''success'' = Inr (JBool False)"
    by (simp add: sample_rejection_def)
  have falsy: "\<not> truthy (JBool False)"
    by simp
  have "signMessage (sample_env sample_rejection) sample_signer sample_message sample_world =
    (Inl (Error ''Signature not verified''),
     sample_world\<lparr>calls := calls sample_world @
        [CallFetch (signInitiateRequest (serverUrl sample_signer) (formattedMessage ''0x48656c6c6f'')),
         CallStartAuthentication
           \<lparr>challenge = challenge sample_options,
            allowCredentials = allowCredentials sample_options,
            userVerification = ''required''\<rparr>,
         CallFetch (signVerifyRequest (serverUrl sample_signer) sample_cred)]\<rparr>)"
  proof (rule signMessage_rejected_assertion [OF content _ _ _ _ _ _ _ verdict falsy])
    show "fetch (sample_env sample_rejection)
            (signInitiateRequest (serverUrl sample_signer) (formattedMessage ''0x48656c6c6f'')) =
          Inr \<lparr>status = 200, json = Inr sample_challengePayload\<rparr>"
      by (simp add: server sample_initiate)
    show "json \<lparr>status = 200, json = Inr sample_challengePayload\<rparr> = Inr sample_challengePayload"
      by simp
    show "get_prop sample_challengePayload ''challenge'' = Inr (challenge sample_options)"
      by (rule sample_payload_props)
    show "get_prop sample_challengePayload ''allowCredentials'' = Inr (allowCredentials sample_options)"
      by (rule sample_payload_props)
    show "startAuthentication (sample_env sample_rejection)
           \<lparr>challenge = challenge sample_options,
            allowCredentials = allowCredentials sample_options,
            userVerification = ''required''\<rparr> = Inr sample_cred"
      by (simp add: sample_options_eq sample_authentication)
    show "fetch (sample_env sample_rejection) (signVerifyRequest (serverUrl sample_signer) sample_cred) =
          Inr \<lparr>status = 200, json = Inr sample_rejection\<rparr>"
      by (simp add: server sample_verify)
    show "json \<lparr>status = 200, json = Inr sample_rejection\<rparr> = Inr sample_rejection"
      by simp
  qed
  then show ?thesis
    using verdict falsy
    by (simp add: server sample_formatted sample_options_eq sample_sign_calls_def sample_world_def)
qed

section \<open>A failed challenge request\<close>





section \<open>Typed data that does not validate\<close>

text \<open>
  C7. When \<^verbatim>\<open>validateTypedData\<close> rejects the domain, the message, the primary type and the
  types object the code builds for it (the domain types under \<^verbatim>\<open>EIP712Domain\<close>, with the
  properties of \<^verbatim>\<open>typedData.types\<close> spread over them), \<^verbatim>\<open>signTypedData\<close> fails with that
  rejection, and the only calls it has made are the two local ones,
  \<^verbatim>\<open>getTypesForEIP712Domain\<close> and \<^verbatim>\<open>validateTypedData\<close>: no request is sent, the hash is not
  computed and the authenticator is not prompted.
\<close>

theorem signTypedData_invalid:
  assumes "validateTypedData env
             \<lparr>v_domain = domain typedData,
              v_message = message typedData,
              v_primaryType = primaryType typedData,
              v_types = typesWithDomain (getTypesForEIP712Domain env (domain typedData))
                          (types typedData)\<rparr> = Inl e"
  shows "signTypedData env signer typedData w =
    (Inl e,
     w\<lparr>calls := calls w @
        [CallGetTypesForEIP712Domain (domain typedData),
         CallValidateTypedData
           \<lparr>v_domain = domain typedData,
            v_message = message typedData,
            v_primaryType = primaryType typedData,
            v_types = typesWithDomain (getTypesForEIP712Domain env (domain typedData))
                        (types typedData)\<rparr>]\<rparr>)"
  using assms
  by (simp add: signTypedData_def io_simps Let_def)

theorem signTypedData_invalid_witness:
  "signTypedData (sample_env sample_verifyResult) sample_signer sample_malformed_typedData sample_world =
    (Inl (Rejected ''InvalidPrimaryTypeError''),
     sample_world\<lparr>calls :=
        [CallGetTypesForEIP712Domain (domain sample_malformed_typedData),
         CallValidateTypedData
           \<lparr>v_domain = domain sample_malformed_typedData,
            v_message = message sample_malformed_typedData,
            v_primaryType = primaryType sample_malformed_typedData,
            v_types = typesWithDomain (JArr []) (types sample_malformed_typedData)\<rparr>]\<rparr>)"
proof -
  have "validateTypedData (sample_env sample_verifyResult)
             \<lparr>v_domain = domain sample_malformed_typedData,
              v_message = message sample_malformed_typedData,
              v_primaryType = primaryType sample_malformed_typedData,
              v_types = typesWithDomain
                          (getTypesForEIP712Domain (sample_env sample_verifyResult)
                             (domain sample_malformed_typedData))
                          (types sample_malformed_typedData)\<rparr> =
        Inl (Rejected ''InvalidPrimaryTypeError'')"
    by (simp add: sample_env_def sample_validateTypedData_def sample_malformed_typedData_def
        typesWithDomain_def is_array_index_def is_digit_def)
  from signTypedData_invalid [OF this, of sample_signer sample_world]
  show ?thesis
    by (simp add: sample_env_def sample_world_def)
qed

section \<open>Determinism of the encoding\<close>

text \<open>
  C8. Building the signature from a credential, a verification result and a chain id
  gives the same result (the same encoded signature, or the same error) and makes the same
  calls whatever the state of the world it starts in, and whatever the network, the
  authenticator and the key provisioning would answer: it consults none of them.
\<close>

theorem buildSignature_deterministic:
  "fst (buildSignature (env\<lparr>fetch := f, startAuthentication := a, toWebAuthnPubKey := k\<rparr>)
          chain cred verifyResult w1) =
   fst (buildSignature env chain cred verifyResult w2) \<and>
   drop (length (calls w1))
     (calls (snd (buildSignature (env\<lparr>fetch := f, startAuthentication := a, toWebAuthnPubKey := k\<rparr>)
                    chain cred verifyResult w1))) =
   drop (length (calls w2)) (calls (snd (buildSignature env chain cred verifyResult w2)))"
  by (simp add: buildSignature_def io_simps Let_def split: sum.splits)

section \<open>The message submitted to the server\<close>

lemma signInitiateRequest_stripped:
  "signInitiateRequest server (formattedMessage m) =
     \<lparr>url = server @ ''/sign-initiate'',
      http_method = ''POST'',
      headers = [(''Content-Type'', ''application/json'')],
      body = JObj [(''data'', JStr (if take 2 m = ''0x'' then drop 2 m else m))],
      credentials = ''include''\<rparr>"
  by (simp add: signInitiateRequest_def formattedMessage_def startsWith_def numeral_2_eq_2)

text \<open>
  C5, as the code has it. For a plain string, and for an object whose \<^verbatim>\<open>raw\<close> is a
  string, the first call of \<^verbatim>\<open>signMessage\<close> is the sign-initiate request, and the \<^verbatim>\<open>data\<close>
  of its body is the text itself with one leading \<^verbatim>\<open>0x\<close> removed when there is one. The
  text is not converted: when it is \<^verbatim>\<open>0x\<close> followed by hexadecimal digits, the data
  submitted is those digits, and it does not start with \<^verbatim>\<open>0x\<close>.
\<close>

theorem signMessage_submits_stripped_text:
  assumes "msg = MessageString m \<or> msg = MessageRaw (RawString m)"
  shows "(\<exists>rest. calls (snd (signMessage env signer msg w)) =
            calls w @
            CallFetch
              \<lparr>url = serverUrl signer @ ''/sign-initiate'',
               http_method = ''POST'',
               headers = [(''Content-Type'', ''application/json'')],
               body = JObj [(''data'', JStr (if take 2 m = ''0x'' then drop 2 m else m))],
               credentials = ''include''\<rparr> # rest) \<and>
         (\<forall>ds. m = ''0x'' @ ds \<and> is_hex_digits ds \<longrightarrow>
            (if take 2 m = ''0x'' then drop 2 m else m) = ds \<and> take 2 ds \<noteq> ''0x'')"
proof
  from assms have "messageContent msg = Inr m"
    by auto
  from signMessageUsingWebAuthn_first_call [OF this, of env "serverUrl signer" "chainId signer" w]
  show "\<exists>rest. calls (snd (signMessage env signer msg w)) =
            calls w @
            CallFetch
              \<lparr>url = serverUrl signer @ ''/sign-initiate'',
               http_method = ''POST'',
               headers = [(''Content-Type'', ''application/json'')],
               body = JObj [(''data'', JStr (if take 2 m = ''0x'' then drop 2 m else m))],
               credentials = ''include''\<rparr> # rest"
    unfolding signMessage_def signInitiateRequest_stripped .
next
  show "\<forall>ds. m = ''0x'' @ ds \<and> is_hex_digits ds \<longrightarrow>
            (if take 2 m = ''0x'' then drop 2 m else m) = ds \<and> take 2 ds \<noteq> ''0x''"
  proof (intro allI impI, elim conjE)
    fix ds
    assume m: "m = ''0x'' @ ds" and hex: "is_hex_digits ds"
    have "take 2 ds \<noteq> ''0x''"
    proof
      assume "take 2 ds = ''0x''"
      then have "CHR ''x'' \<in> set ds"
        by (metis in_set_takeD list.set_intros(1) list.set_intros(2))
      with hex have "hex_value (CHR ''x'') \<noteq> None"
        by (simp add: is_hex_digits_def list_all_iff)
      then show False
        by (simp add: hex_value_def)
    qed
    with m show "(if take 2 m = ''0x'' then drop 2 m else m) = ds \<and> take 2 ds \<noteq> ''0x''"
      by simp
  qed
qed

theorem signMessage_submits_stripped_text_witness:
  "is_hex_digits ''48656c6c6f'' \<and>
   (\<exists>rest. calls (snd (signMessage (sample_env sample_verifyResult) sample_signer
                        (MessageString ''0x48656c6c6f'') sample_world)) =
            CallFetch
              \<lparr>url = sample_serverUrl @ ''/sign-initiate'',
               http_method = ''POST'',
               headers = [(''Content-Type'', ''application/json'')],
               body = JObj [(''data'', JStr ''48656c6c6f'')],
               credentials = ''include''\<rparr> # rest)"
proof -
  have hex: "is_hex_digits ''48656c6c6f''"
    by (simp add: is_hex_digits_def hex_value_def)
  have shape: "MessageString ''0x48656c6c6f'' = MessageString ''0x48656c6c6f'' \<or>
               MessageString ''0x48656c6c6f'' = MessageRaw (RawString ''0x48656c6c6f'')"
    by simp
  from signMessage_submits_stripped_text [OF shape, of "sample_env sample_verifyResult" sample_signer sample_world]
  show ?thesis
    using hex by (simp add: sample_signer_def sample_world_def)
qed

text \<open>The claim as the specification states it fails for a plain string that is not
  hexadecimal: the text is submitted as it is.\<close>

theorem signMessage_submits_stripped_text_counterexample:
  "hd (calls (snd (signMessage (sample_env sample_verifyResult) sample_signer
                     (MessageString ''hello'') sample_world))) =
     CallFetch
       \<lparr>url = ''https://passkeys.example/sign-initiate'',
        http_method = ''POST'',
        headers = [(''Content-Type'', ''application/json'')],
        body = JObj [(''data'', JStr ''hello'')],
        credentials = ''include''\<rparr> \<and>
   \<not> is_hex_digits ''hello''"
proof -
  have "messageContent (MessageString ''hello'') = Inr ''hello''"
    by simp
  from signMessageUsingWebAuthn_first_call [OF this, of "sample_env sample_verifyResult"
      sample_serverUrl 11155111 sample_world]
  have "hd (calls (snd (signMessage (sample_env sample_verifyResult) sample_signer
                     (MessageString ''hello'') sample_world))) =
        CallFetch (signInitiateRequest sample_serverUrl (formattedMessage ''hello''))"
    by (auto simp: signMessage_def sample_signer_def sample_world_def)
  moreover have "\<not> is_hex_digits ''hello''"
    by (simp add: is_hex_digits_def hex_value_def)
  ultimately show ?thesis
    by (simp add: signInitiateRequest_def formattedMessage_def startsWith_def sample_serverUrl_def)
qed

section \<open>The signer object\<close>

lemma toWebAuthnSigner_Inr:
  assumes "toWebAuthnSigner env params w0 = (Inr signer, w1)"
  shows "\<exists>k. pubKey signer = Some k \<and>
      client_chain w0 = Inr (chainId signer) \<and>
      serverUrl signer = passkeyServerUrl params \<and>
      (pubKey_param params = Some k \<and> new_calls w0 w1 = [CallGetChainId] \<or>
       pubKey_param params = None \<and>
       toWebAuthnPubKey env (passkeyName params) (passkeyServerUrl params)
         (case mode_param params of None \<Rightarrow> Register | Some m \<Rightarrow> m) = Inr (Some k) \<and>
       new_calls w0 w1 =
         [CallToWebAuthnPubKey (passkeyName params) (passkeyServerUrl params)
            (case mode_param params of None \<Rightarrow> Register | Some m \<Rightarrow> m),
          CallGetChainId])"
proof (cases "pubKey_param params")
  case None
  with assms show ?thesis
    by (auto simp: toWebAuthnSigner_def io_simps io_bind_getChainId Let_def new_calls_def
        split: sum.splits if_splits)
next
  case (Some k)
  with assms show ?thesis
    by (auto simp: toWebAuthnSigner_def io_bind_def io_return_def getChainId_def new_calls_def
        split: sum.splits if_splits)
qed

text \<open>
  C9, as the code has it. On a signer that \<^verbatim>\<open>toWebAuthnSigner\<close> has returned, the key is
  there: it is the key the caller supplied, or else the one the provisioning returned.
  \<^verbatim>\<open>getSignerData\<close> does not take its missing-key branch: its only call is
  \<^verbatim>\<open>encodeAbiParameters\<close> on \<^verbatim>\<open>pubX: uint256\<close>, \<^verbatim>\<open>pubY: uint256\<close> and the two coordinates of
  that key, and its result is the result of that call. With the contract ABI encoding
  that result is the two head words when both coordinates are within \<^verbatim>\<open>uint256\<close>, and the
  encoder's range error when one is not.
\<close>

theorem getSignerData_on_constructed_signer:
  assumes "toWebAuthnSigner env params w0 = (Inr signer, w1)"
  shows "\<exists>k. pubKey signer = Some k \<and>
      (pubKey_param params = Some k \<or>
       pubKey_param params = None \<and>
       toWebAuthnPubKey env (passkeyName params) (passkeyServerUrl params)
         (case mode_param params of None \<Rightarrow> Register | Some m \<Rightarrow> m) = Inr (Some k)) \<and>
      getSignerData env signer w =
        (encodeAbiParameters env
           [\<lparr>param_name = ''pubX'', param_type = ''uint256''\<rparr>,
            \<lparr>param_name = ''pubY'', param_type = ''uint256''\<rparr>]
           [AbiBigInt (pubX k), AbiBigInt (pubY k)],
         w\<lparr>calls := calls w @
            [CallEncodeAbiParameters
               [\<lparr>param_name = ''pubX'', param_type = ''uint256''\<rparr>,
                \<lparr>param_name = ''pubY'', param_type = ''uint256''\<rparr>]
               [AbiBigInt (pubX k), AbiBigInt (pubY k)]]\<rparr>) \<and>
      (encodeAbiParameters env = abi_encode \<and>
       0 \<le> pubX k \<and> pubX k \<le> maxUint256 \<and> 0 \<le> pubY k \<and> pubY k \<le> maxUint256 \<longrightarrow>
       fst (getSignerData env signer w) = Inr (''0x'' @ to_hex 64 (pubX k) @ to_hex 64 (pubY k))) \<and>
      (encodeAbiParameters env = abi_encode \<and>
       \<not> (0 \<le> pubX k \<and> pubX k \<le> maxUint256 \<and> 0 \<le> pubY k \<and> pubY k \<le> maxUint256) \<longrightarrow>
       fst (getSignerData env signer w) = Inl (Rejected ''IntegerOutOfRangeError''))"
proof -
  from toWebAuthnSigner_Inr [OF assms] obtain k where
    key: "pubKey signer = Some k"
    and origin: "pubKey_param params = Some k \<or>
       pubKey_param params = None \<and>
       toWebAuthnPubKey env (passkeyName params) (passkeyServerUrl params)
         (case mode_param params of None \<Rightarrow> Register | Some m \<Rightarrow> m) = Inr (Some k)"
    by blast
  have run: "getSignerData env signer w =
        (encodeAbiParameters env signer_data_abi [AbiBigInt (pubX k), AbiBigInt (pubY k)],
         w\<lparr>calls := calls w @
            [CallEncodeAbiParameters signer_data_abi [AbiBigInt (pubX k), AbiBigInt (pubY k)]]\<rparr>)"
    using key by (simp add: getSignerData_def io_simps)
  have enc: "abi_encode signer_data_abi [AbiBigInt x, AbiBigInt y] =
      Inr (''0x'' @ to_hex 64 x @ to_hex 64 y)"
    if "0 \<le> x" "x \<le> maxUint256" "0 \<le> y" "y \<le> maxUint256" for x y
    using that by (simp add: abi_encode_def signer_data_abi_def prepareParam_def)
  have refuse: "abi_encode signer_data_abi [AbiBigInt x, AbiBigInt y] =
      Inl (Rejected ''IntegerOutOfRangeError'')"
    if "\<not> (0 \<le> x \<and> x \<le> maxUint256 \<and> 0 \<le> y \<and> y \<le> maxUint256)" for x y
    using that by (auto simp: abi_encode_def signer_data_abi_def prepareParam_def)
  have ok: "fst (getSignerData env signer w) = Inr (''0x'' @ to_hex 64 (pubX k) @ to_hex 64 (pubY k))"
    if "encodeAbiParameters env = abi_encode \<and>
       0 \<le> pubX k \<and> pubX k \<le> maxUint256 \<and> 0 \<le> pubY k \<and> pubY k \<le> maxUint256"
    using that enc [of "pubX k" "pubY k"] by (simp add: run)
  have bad: "fst (getSignerData env signer w) = Inl (Rejected ''IntegerOutOfRangeError'')"
    if "encodeAbiParameters env = abi_encode \<and>
       \<not> (0 \<le> pubX k \<and> pubX k \<le> maxUint256 \<and> 0 \<le> pubY k \<and> pubY k \<le> maxUint256)"
    using that refuse [of "pubX k" "pubY k"] by (simp add: run)
  from key origin run ok bad show ?thesis
    unfolding signer_data_abi_def by blast
qed

theorem getSignerData_on_constructed_signer_witness:
  "toWebAuthnSigner (sample_env sample_verifyResult) sample_params sample_world =
     (Inr sample_signer,
      sample_world\<lparr>calls := [CallToWebAuthnPubKey ''alice'' sample_serverUrl Register, CallGetChainId]\<rparr>) \<and>
   pubKey sample_signer = Some sample_key \<and>
   fst (getSignerData (sample_env sample_verifyResult) sample_signer sample_world) =
     Inr (''0x'' @ to_hex 64 3 @ to_hex 64 4) \<and>
   toWebAuthnSigner (sample_env sample_verifyResult) sample_oversized_params sample_world =
     (Inr sample_oversized_signer, sample_world\<lparr>calls := [CallGetChainId]\<rparr>) \<and>
   pubKey sample_oversized_signer = Some \<lparr>pubX = 2 ^ 256, pubY = - 1\<rparr> \<and>
   fst (getSignerData (sample_env sample_verifyResult) sample_oversized_signer sample_world) =
     Inl (Rejected ''IntegerOutOfRangeError'')"
proof -
  note run = sample_toWebAuthnSigner [of sample_verifyResult]
  note oversized = sample_oversized_toWebAuthnSigner [of sample_verifyResult]
  have key: "pubKey sample_signer = Some sample_key"
    by (simp add: sample_signer_def)
  have big: "pubKey sample_oversized_signer = Some \<lparr>pubX = 2 ^ 256, pubY = - 1\<rparr>"
    by (simp add: sample_oversized_signer_def)
  have abi: "encodeAbiParameters (sample_env sample_verifyResult) = abi_encode"
    by (simp add: sample_env_def)
  from getSignerData_on_constructed_signer [OF run, of sample_world] key abi
  have "fst (getSignerData (sample_env sample_verifyResult) sample_signer sample_world) =
     Inr (''0x'' @ to_hex 64 (pubX sample_key) @ to_hex 64 (pubY sample_key))"
    by (auto simp: sample_key_def maxUint256_def)
  moreover from getSignerData_on_constructed_signer [OF oversized, of sample_world] big abi
  have "fst (getSignerData (sample_env sample_verifyResult) sample_oversized_signer sample_world) =
     Inl (Rejected ''IntegerOutOfRangeError'')"
    by (auto simp: maxUint256_def)
  ultimately show ?thesis
    using run oversized key big by (simp add: sample_key_def)
qed

text \<open>The claim as the specification states it fails: \<^verbatim>\<open>getSignerData\<close> can fail on a
  signer that was built. A caller supplies a key with \<^verbatim>\<open>pubX = 2 ** 256\<close> and
  \<^verbatim>\<open>pubY = -1\<close>; \<^verbatim>\<open>toWebAuthnSigner\<close> returns a signer, and \<^verbatim>\<open>getSignerData\<close> on it throws
  the range error of the encoder.\<close>

theorem getSignerData_on_constructed_signer_counterexample:
  "toWebAuthnSigner (sample_env sample_verifyResult) sample_oversized_params sample_world =
     (Inr sample_oversized_signer, sample_world\<lparr>calls := [CallGetChainId]\<rparr>) \<and>
   fst (getSignerData (sample_env sample_verifyResult) sample_oversized_signer sample_world) =
     Inl (Rejected ''IntegerOutOfRangeError'')"
  using sample_oversized_toWebAuthnSigner [of sample_verifyResult]
  by (simp add: getSignerData_def io_call_def sample_oversized_signer_def sample_env_def
      abi_encode_def signer_data_abi_def prepareParam_def maxUint256_def)

section \<open>The contract ABI encoding read back\<close>

lemma length_to_hex [simp]: "length (to_hex k v) = k"
  by (induction k arbitrary: v) auto

lemma hex_value_hex_digit: "0 \<le> d \<Longrightarrow> d < 16 \<Longrightarrow> hex_value (hex_digit d) = Some d"
  by (auto simp: hex_value_def hex_digit_def Let_def)

lemma from_hex_append:
  "from_hex acc (xs @ ys) = (case from_hex acc xs of None \<Rightarrow> None | Some a \<Rightarrow> from_hex a ys)"
  by (induction xs arbitrary: acc) (auto split: option.splits)

lemma from_hex_to_hex_acc:
  "0 \<le> v \<Longrightarrow> v < 16 ^ k \<Longrightarrow> from_hex acc (to_hex k v) = Some (acc * 16 ^ k + v)"
proof (induction k arbitrary: v)
  case 0
  then show ?case by simp
next
  case (Suc k)
  define p :: int where "p = 16 ^ k"
  have "v < 16 * p"
    using Suc.prems by (simp add: p_def)
  with Suc.prems have "0 \<le> v div 16" "v div 16 < p"
    by arith+
  then have "0 \<le> v div 16" "v div 16 < 16 ^ k"
    by (simp_all add: p_def)
  then have "from_hex acc (to_hex k (v div 16)) = Some (acc * 16 ^ k + v div 16)"
    by (rule Suc.IH)
  moreover have "hex_value (hex_digit (v mod 16)) = Some (v mod 16)"
    by (rule hex_value_hex_digit) auto
  ultimately show ?case
    by (simp add: from_hex_append algebra_simps)
qed

lemma from_hex_to_hex: "0 \<le> v \<Longrightarrow> v < 16 ^ k \<Longrightarrow> from_hex 0 (to_hex k v) = Some v"
  using from_hex_to_hex_acc [of v k 0] by simp

lemma skip_append: "int (length xs) = n \<Longrightarrow> skip n (xs @ ys) = ys"
proof (induction xs arbitrary: n)
  case Nil
  then show ?case by (cases ys) auto
next
  case (Cons x xs)
  then show ?case by auto
qed

lemma first_append: "int (length xs) = n \<Longrightarrow> first n (xs @ ys) = Some xs"
proof (induction xs arbitrary: n)
  case Nil
  then show ?case by (cases ys) auto
next
  case (Cons x xs)
  then show ?case by auto
qed

lemma word_at_append:
  assumes "int (length pre) = 2 * off" and "length W = 64"
  shows "word_at (''0x'' @ pre @ W @ post) off = from_hex 0 W"
proof -
  have "skip (2 + 2 * off) ((''0x'' @ pre) @ W @ post) = W @ post"
    by (rule skip_append) (use assms in simp)
  moreover have "first 64 (W @ post) = Some W"
    by (rule first_append) (use assms in simp)
  ultimately show ?thesis
    by (simp add: word_at_def)
qed


lemma bytes_at_append:
  assumes "int (length pre) = 2 * off" and "0 \<le> n" and "n < 16 ^ 64"
    and "int (length d) = 2 * n"
  shows "bytes_at (''0x'' @ pre @ to_hex 64 n @ d @ post) off = Some d"
proof -
  have "word_at (''0x'' @ pre @ to_hex 64 n @ d @ post) off = from_hex 0 (to_hex 64 n)"
    by (rule word_at_append) (use assms in simp_all)
  also have "\<dots> = Some n"
    by (rule from_hex_to_hex) fact+
  finally have "word_at (''0x'' @ pre @ to_hex 64 n @ d @ post) off = Some n" .
  moreover have "skip (2 + 2 * (off + 32)) ((''0x'' @ pre @ to_hex 64 n) @ d @ post) = d @ post"
    by (rule skip_append) (use assms in simp)
  moreover have "first (2 * n) (d @ post) = Some d"
    by (rule first_append) (use assms in simp)
  ultimately show ?thesis
    by (simp add: bytes_at_def)
qed

lemma ceil_ge: "(n::nat) \<le> (n + 63) div 64 * 64"
  by arith

lemma length_pad_right: "length (pad_right d) = (length d + 63) div 64 * 64"
  using ceil_ge [of "length d"] by (simp add: pad_right_def)

lemma pad_right_even: "even (length (pad_right d))"
  by (simp add: length_pad_right)

lemma pad_right_bound: "length (pad_right d) \<le> length d + 63"
  unfolding length_pad_right by arith

lemma even_length_utf8_hex: "even (length (utf8_hex s))"
  by (induction s) (auto simp: utf8_hex_def Let_def)

lemma word_at_to_hex:
  assumes "h = ''0x'' @ pre @ to_hex 64 v @ post" and "int (length pre) = 2 * off"
    and "0 \<le> v" and "v < 16 ^ 64"
  shows "word_at h off = Some v"
proof -
  have "word_at (''0x'' @ pre @ to_hex 64 v @ post) off = from_hex 0 (to_hex 64 v)"
    by (rule word_at_append) (use assms in simp_all)
  also have "\<dots> = Some v"
    by (rule from_hex_to_hex) fact+
  finally show ?thesis
    using assms(1) by simp
qed

lemma bytes_at_to_hex:
  assumes "h = ''0x'' @ pre @ to_hex 64 n @ d @ post" and "int (length pre) = 2 * off"
    and "0 \<le> n" and "n < 16 ^ 64" and "int (length d) = 2 * n"
  shows "bytes_at h off = Some d"
  using bytes_at_append [OF assms(2-5)] assms(1) by simp

lemma abi_encode_signature:
  assumes "is_Hex a" and "0 \<le> c" "c \<le> maxUint256" and "0 \<le> t" "t \<le> maxUint256"
    and "0 \<le> r" "r \<le> maxUint256" and "0 \<le> s" "s \<le> maxUint256"
  shows "abi_encode signature_abi
           [AbiString a, AbiString j, AbiBigInt c, AbiBigInt t, AbiBigInt r, AbiBigInt s,
            AbiBoolean u] =
         Inr (''0x'' @ to_hex 64 224
              @ to_hex 64 (224 + (64 + int (length (pad_right (drop 2 a)))) div 2)
              @ to_hex 64 c @ to_hex 64 t @ to_hex 64 r @ to_hex 64 s
              @ to_hex 64 (if u then 1 else 0)
              @ to_hex 64 (int (length (drop 2 a)) div 2) @ pad_right (drop 2 a)
              @ to_hex 64 (int (length (utf8_hex j)) div 2) @ pad_right (utf8_hex j))"
  using assms
  by (simp add: abi_encode_def signature_abi_def prepareParam_def)

lemma decode_encoded_signature:
  assumes hex: "is_Hex a"
    and c: "0 \<le> c" "c \<le> maxUint256" and t: "0 \<le> t" "t \<le> maxUint256"
    and r: "0 \<le> r" "r \<le> maxUint256" and s: "0 \<le> s" "s \<le> maxUint256"
    and sizes: "int (length a) \<le> maxUint256" "int (length (utf8_hex j)) \<le> maxUint256"
  shows "\<exists>h. abi_encode signature_abi
               [AbiString a, AbiString j, AbiBigInt c, AbiBigInt t, AbiBigInt r, AbiBigInt s,
                AbiBoolean u] = Inr h \<and>
             decodeSignature h =
               Some \<lparr>authenticatorData_bytes = drop 2 a,
                     clientDataJSON_bytes = utf8_hex j,
                     challengeLocation = c,
                     responseTypeLocation = t,
                     r_field = r,
                     s_field = s,
                     usePrecompiled = (if u then 1 else 0)\<rparr>"
proof -
  define A where "A = drop 2 a"
  define J where "J = utf8_hex j"
  define zA where "zA = replicate ((length A + 63) div 64 * 64 - length A) (CHR ''0'')"
  define zJ where "zJ = replicate ((length J + 63) div 64 * 64 - length J) (CHR ''0'')"
  define nA where "nA = int (length A) div 2"
  define nJ where "nJ = int (length J) div 2"
  define offJ where "offJ = 224 + (64 + int (length (pad_right A))) div 2"
  define b :: int where "b = (if u then 1 else 0)"
  define h where "h = ''0x'' @ to_hex 64 224 @ to_hex 64 offJ @ to_hex 64 c @ to_hex 64 t
    @ to_hex 64 r @ to_hex 64 s @ to_hex 64 b @ to_hex 64 nA @ pad_right A
    @ to_hex 64 nJ @ pad_right J"
  have big: "(16::int) ^ 64 = maxUint256 + 1"
    by (simp add: maxUint256_def)
  have padA: "pad_right A = A @ zA" and padJ: "pad_right J = J @ zJ"
    by (simp_all add: pad_right_def zA_def zJ_def)
  have evenA: "even (length A)"
    using hex by (auto simp: is_Hex_def A_def)
  have evenJ: "even (length J)"
    by (simp add: J_def even_length_utf8_hex)
  have lenA: "int (length A) = 2 * nA"
    using evenA by (auto simp: nA_def elim: evenE)
  have lenJ: "int (length J) = 2 * nJ"
    using evenJ by (auto simp: nJ_def elim: evenE)
  have lenPA: "64 + int (length (pad_right A)) = 2 * (offJ - 224)"
    using pad_right_even [of A] by (auto simp: offJ_def elim: evenE)
  have sizeA: "int (length A) \<le> maxUint256"
    using sizes(1) by (simp add: A_def)
  have sizeJ: "int (length J) \<le> maxUint256"
    using sizes(2) by (simp add: J_def)
  have nA_range: "0 \<le> nA" "nA < 16 ^ 64"
    unfolding big nA_def using sizeA by arith+
  have nJ_range: "0 \<le> nJ" "nJ < 16 ^ 64"
    unfolding big nJ_def using sizeJ by arith+
  have "int (length (pad_right A)) \<le> int (length A) + 63"
    using pad_right_bound [of A] by simp
  moreover have "1000 \<le> maxUint256"
    by (simp add: maxUint256_def)
  ultimately have offJ_range: "0 \<le> offJ" "offJ < 16 ^ 64"
    unfolding big offJ_def using sizeA by arith+
  have b_range: "0 \<le> b" "b < 16 ^ 64"
    by (simp_all add: b_def)
  have enc: "abi_encode signature_abi
               [AbiString a, AbiString j, AbiBigInt c, AbiBigInt t, AbiBigInt r, AbiBigInt s,
                AbiBoolean u] = Inr h"
    using abi_encode_signature [OF hex c t r s, of j u]
    by (simp add: h_def A_def J_def nA_def nJ_def offJ_def b_def)
  have w0: "word_at h 0 = Some 224"
    by (rule word_at_to_hex [where pre = "[]" and post = "to_hex 64 offJ @ to_hex 64 c
          @ to_hex 64 t @ to_hex 64 r @ to_hex 64 s @ to_hex 64 b @ to_hex 64 nA
          @ pad_right A @ to_hex 64 nJ @ pad_right J"])
      (simp_all add: h_def)
  have w1: "word_at h 32 = Some offJ"
    by (rule word_at_to_hex [where pre = "to_hex 64 224" and post = "to_hex 64 c
          @ to_hex 64 t @ to_hex 64 r @ to_hex 64 s @ to_hex 64 b @ to_hex 64 nA
          @ pad_right A @ to_hex 64 nJ @ pad_right J"])
      (use offJ_range in \<open>simp_all add: h_def\<close>)
  have w2: "word_at h 64 = Some c"
    by (rule word_at_to_hex [where pre = "to_hex 64 224 @ to_hex 64 offJ" and post =
          "to_hex 64 t @ to_hex 64 r @ to_hex 64 s @ to_hex 64 b @ to_hex 64 nA
           @ pad_right A @ to_hex 64 nJ @ pad_right J"])
      (use c in \<open>simp_all add: h_def maxUint256_def\<close>)
  have w3: "word_at h 96 = Some t"
    by (rule word_at_to_hex [where pre = "to_hex 64 224 @ to_hex 64 offJ @ to_hex 64 c"
          and post = "to_hex 64 r @ to_hex 64 s @ to_hex 64 b @ to_hex 64 nA
           @ pad_right A @ to_hex 64 nJ @ pad_right J"])
      (use t in \<open>simp_all add: h_def maxUint256_def\<close>)
  have w4: "word_at h 128 = Some r"
    by (rule word_at_to_hex [where pre = "to_hex 64 224 @ to_hex 64 offJ @ to_hex 64 c
          @ to_hex 64 t" and post = "to_hex 64 s @ to_hex 64 b @ to_hex 64 nA
           @ pad_right A @ to_hex 64 nJ @ pad_right J"])
      (use r in \<open>simp_all add: h_def maxUint256_def\<close>)
  have w5: "word_at h 160 = Some s"
    by (rule word_at_to_hex [where pre = "to_hex 64 224 @ to_hex 64 offJ @ to_hex 64 c
          @ to_hex 64 t @ to_hex 64 r" and post = "to_hex 64 b @ to_hex 64 nA
           @ pad_right A @ to_hex 64 nJ @ pad_right J"])
      (use s in \<open>simp_all add: h_def maxUint256_def\<close>)
  have w6: "word_at h 192 = Some b"
    by (rule word_at_to_hex [where pre = "to_hex 64 224 @ to_hex 64 offJ @ to_hex 64 c
          @ to_hex 64 t @ to_hex 64 r @ to_hex 64 s" and post = "to_hex 64 nA
           @ pad_right A @ to_hex 64 nJ @ pad_right J"])
      (use b_range in \<open>simp_all add: h_def\<close>)
  have bA: "bytes_at h 224 = Some A"
    by (rule bytes_at_to_hex [where pre = "to_hex 64 224 @ to_hex 64 offJ @ to_hex 64 c
          @ to_hex 64 t @ to_hex 64 r @ to_hex 64 s @ to_hex 64 b" and n = nA
          and post = "zA @ to_hex 64 nJ @ pad_right J"])
      (use nA_range lenA in \<open>simp_all add: h_def padA\<close>)
  have bJ: "bytes_at h offJ = Some J"
    by (rule bytes_at_to_hex [where pre = "to_hex 64 224 @ to_hex 64 offJ @ to_hex 64 c
          @ to_hex 64 t @ to_hex 64 r @ to_hex 64 s @ to_hex 64 b @ to_hex 64 nA @ pad_right A"
          and n = nJ and post = zJ])
      (use lenPA nJ_range lenJ in \<open>simp_all add: h_def padJ\<close>)
  have "decodeSignature h =
      Some \<lparr>authenticatorData_bytes = A, clientDataJSON_bytes = J, challengeLocation = c,
            responseTypeLocation = t, r_field = r, s_field = s, usePrecompiled = b\<rparr>"
    by (simp add: decodeSignature_def w0 w1 w2 w3 w4 w5 w6 bA bJ)
  with enc show ?thesis
    by (simp add: A_def J_def b_def)
qed

lemma usePrecompiled_word:
  assumes "abi_encode signature_abi
             [AbiString a, AbiString j, AbiBigInt c, AbiBigInt t, AbiBigInt r, AbiBigInt s,
              AbiBoolean u] = Inr h"
  shows "word_at h 192 = Some (if u then 1 else 0)"
proof -
  define b :: int where "b = (if u then 1 else 0)"
  from assms obtain w0 w1 rest where h: "h = ''0x'' @ to_hex 64 w0 @ to_hex 64 w1 @ to_hex 64 c
      @ to_hex 64 t @ to_hex 64 r @ to_hex 64 s @ to_hex 64 b @ rest"
    by (auto simp: abi_encode_def signature_abi_def prepareParam_def b_def split: if_splits)
  have "word_at h 192 = Some b"
    by (rule word_at_to_hex [where pre = "to_hex 64 w0 @ to_hex 64 w1 @ to_hex 64 c
          @ to_hex 64 t @ to_hex 64 r @ to_hex 64 s" and post = rest])
      (simp_all add: h b_def)
  then show ?thesis
    by (simp add: b_def)
qed

lemma dummy_well_formed:
  "is_Hex dummy_authenticatorData"
  "0 \<le> dummy_r" "dummy_r \<le> maxUint256" "0 \<le> dummy_s" "dummy_s \<le> maxUint256"
  "int (length dummy_authenticatorData) \<le> maxUint256"
  "int (length (utf8_hex dummy_clientDataJSON)) \<le> maxUint256"
  by (simp_all add: is_Hex_def is_hex_digits_def hex_value_def startsWith_def
      dummy_authenticatorData_def dummy_r_def dummy_s_def maxUint256_def
      dummy_clientDataJSON_def utf8_hex_def)

lemma dummy_decoded:
  "\<exists>h. abi_encode signature_abi
         [AbiString dummy_authenticatorData, AbiString dummy_clientDataJSON,
          AbiBigInt maxUint256, AbiBigInt maxUint256, AbiBigInt dummy_r, AbiBigInt dummy_s,
          AbiBoolean u] = Inr h \<and>
       decodeSignature h =
         Some \<lparr>authenticatorData_bytes = drop 2 dummy_authenticatorData,
               clientDataJSON_bytes = utf8_hex dummy_clientDataJSON,
               challengeLocation = maxUint256,
               responseTypeLocation = maxUint256,
               r_field = dummy_r,
               s_field = dummy_s,
               usePrecompiled = (if u then 1 else 0)\<rparr>"
proof -
  have "0 \<le> maxUint256"
    by (simp add: maxUint256_def)
  then show ?thesis
    by (intro decode_encoded_signature dummy_well_formed) simp_all
qed

lemma sample_dummy_encoding:
  "abi_encode signature_abi
     [AbiString dummy_authenticatorData, AbiString dummy_clientDataJSON,
      AbiBigInt maxUint256, AbiBigInt maxUint256, AbiBigInt dummy_r, AbiBigInt dummy_s,
      AbiBoolean False] = Inr sample_dummySignature"
  by code_simp

lemma sample_dummy_words:
  "word_at sample_dummySignature 128 =
     Some 11111111111111111111111111111111111111111111111111111111111111111111111111111"
  "word_at sample_dummySignature 160 =
     Some 22222222222222222222222222222222222222222222222222222222222222222222222222222"
  by code_simp+

section \<open>The dummy signature\<close>

lemma getDummySignature_run:
  "getDummySignature env signer w =
    (encodeAbiParameters env signature_abi
       [AbiString dummy_authenticatorData, AbiString dummy_clientDataJSON,
        AbiBigInt maxUint256, AbiBigInt maxUint256, AbiBigInt dummy_r, AbiBigInt dummy_s,
        AbiBoolean (isRIP7212SupportedNetwork env (chainId signer))],
     w\<lparr>calls := calls w @
        [CallIsRIP7212SupportedNetwork (chainId signer),
         CallEncodeAbiParameters signature_abi
           [AbiString dummy_authenticatorData, AbiString dummy_clientDataJSON,
            AbiBigInt maxUint256, AbiBigInt maxUint256, AbiBigInt dummy_r, AbiBigInt dummy_s,
            AbiBoolean (isRIP7212SupportedNetwork env (chainId signer))]]\<rparr>)"
  by (simp add: getDummySignature_def io_simps Let_def)

lemma dummy_bytes: "drop 2 dummy_authenticatorData = replicate 74 (CHR ''f'')"
  by code_simp

lemma sample_getDummySignature:
  "fst (getDummySignature (sample_env v) sample_signer w) = Inr sample_dummySignature"
  using sample_dummy_encoding sample_chain_unsupported
  by (simp add: getDummySignature_run sample_env_def sample_signer_def)

text \<open>
  C4, as the code has it. \<^verbatim>\<open>getDummySignature\<close> returns what \<^verbatim>\<open>encodeAbiParameters\<close> gives
  for the seven signature parameters and fixed values: 37 bytes \<^verbatim>\<open>0xff\<close> as authenticator
  data, a fixed client data text, the maximum \<^verbatim>\<open>uint256\<close> for both locations, the decimal
  numbers of 77 ones and of 77 twos for \<open>r\<close> and \<open>s\<close>, and the network capability of the
  signer's chain. Under the contract ABI encoding the result reads back as exactly these
  fields.
\<close>

theorem getDummySignature_fields:
  "fst (getDummySignature env signer w) =
     encodeAbiParameters env signature_abi
       [AbiString ''0xffffffffffffffffffffffffffffffffffffffffffffffffffffffffffffffffffffffffff'',
        AbiString dummy_clientDataJSON,
        AbiBigInt (2 ^ 256 - 1),
        AbiBigInt (2 ^ 256 - 1),
        AbiBigInt 11111111111111111111111111111111111111111111111111111111111111111111111111111,
        AbiBigInt 22222222222222222222222222222222222222222222222222222222222222222222222222222,
        AbiBoolean (isRIP7212SupportedNetwork env (chainId signer))] \<and>
   (\<exists>h. fst (getDummySignature (env\<lparr>encodeAbiParameters := abi_encode\<rparr>) signer w) = Inr h \<and>
        decodeSignature h =
          Some \<lparr>authenticatorData_bytes = replicate 74 (CHR ''f''),
                clientDataJSON_bytes = utf8_hex dummy_clientDataJSON,
                challengeLocation = 2 ^ 256 - 1,
                responseTypeLocation = 2 ^ 256 - 1,
                r_field = 11111111111111111111111111111111111111111111111111111111111111111111111111111,
                s_field = 22222222222222222222222222222222222222222222222222222222222222222222222222222,
                usePrecompiled = (if isRIP7212SupportedNetwork env (chainId signer) then 1 else 0)\<rparr>)"
proof
  show "fst (getDummySignature env signer w) =
     encodeAbiParameters env signature_abi
       [AbiString ''0xffffffffffffffffffffffffffffffffffffffffffffffffffffffffffffffffffffffffff'',
        AbiString dummy_clientDataJSON,
        AbiBigInt (2 ^ 256 - 1),
        AbiBigInt (2 ^ 256 - 1),
        AbiBigInt 11111111111111111111111111111111111111111111111111111111111111111111111111111,
        AbiBigInt 22222222222222222222222222222222222222222222222222222222222222222222222222222,
        AbiBoolean (isRIP7212SupportedNetwork env (chainId signer))]"
    unfolding getDummySignature_run dummy_authenticatorData_def dummy_r_def dummy_s_def
      maxUint256_def by simp
next
  from dummy_decoded [of "isRIP7212SupportedNetwork env (chainId signer)"]
  obtain h where
    "abi_encode signature_abi
         [AbiString dummy_authenticatorData, AbiString dummy_clientDataJSON,
          AbiBigInt maxUint256, AbiBigInt maxUint256, AbiBigInt dummy_r, AbiBigInt dummy_s,
          AbiBoolean (isRIP7212SupportedNetwork env (chainId signer))] = Inr h"
    and "decodeSignature h =
         Some \<lparr>authenticatorData_bytes = drop 2 dummy_authenticatorData,
               clientDataJSON_bytes = utf8_hex dummy_clientDataJSON,
               challengeLocation = maxUint256,
               responseTypeLocation = maxUint256,
               r_field = dummy_r,
               s_field = dummy_s,
               usePrecompiled = (if isRIP7212SupportedNetwork env (chainId signer) then 1 else 0)\<rparr>"
    by blast
  then have "fst (getDummySignature (env\<lparr>encodeAbiParameters := abi_encode\<rparr>) signer w) = Inr h \<and>
        decodeSignature h =
          Some \<lparr>authenticatorData_bytes = replicate 74 (CHR ''f''),
                clientDataJSON_bytes = utf8_hex dummy_clientDataJSON,
                challengeLocation = 2 ^ 256 - 1,
                responseTypeLocation = 2 ^ 256 - 1,
                r_field = 11111111111111111111111111111111111111111111111111111111111111111111111111111,
                s_field = 22222222222222222222222222222222222222222222222222222222222222222222222222222,
                usePrecompiled = (if isRIP7212SupportedNetwork env (chainId signer) then 1 else 0)\<rparr>"
    unfolding getDummySignature_run dummy_bytes
    by (simp add: dummy_r_def dummy_s_def maxUint256_def)
  then show "\<exists>h. fst (getDummySignature (env\<lparr>encodeAbiParameters := abi_encode\<rparr>) signer w) = Inr h \<and>
        decodeSignature h =
          Some \<lparr>authenticatorData_bytes = replicate 74 (CHR ''f''),
                clientDataJSON_bytes = utf8_hex dummy_clientDataJSON,
                challengeLocation = 2 ^ 256 - 1,
                responseTypeLocation = 2 ^ 256 - 1,
                r_field = 11111111111111111111111111111111111111111111111111111111111111111111111111111,
                s_field = 22222222222222222222222222222222222222222222222222222222222222222222222222222,
                usePrecompiled = (if isRIP7212SupportedNetwork env (chainId signer) then 1 else 0)\<rparr>" ..
qed

text \<open>The claim as the specification states it fails: in the dummy signature of the
  sample signer the \<open>r\<close> and \<open>s\<close> words are the numbers of 77 ones and 77 twos, not the
  maximum.\<close>

theorem getDummySignature_fields_counterexample:
  "fst (getDummySignature (sample_env sample_verifyResult) sample_signer sample_world) =
     Inr sample_dummySignature \<and>
   word_at sample_dummySignature 128 =
     Some 11111111111111111111111111111111111111111111111111111111111111111111111111111 \<and>
   word_at sample_dummySignature 160 =
     Some 22222222222222222222222222222222222222222222222222222222222222222222222222222 \<and>
   word_at sample_dummySignature 128 \<noteq> Some maxUint256 \<and>
   word_at sample_dummySignature 160 \<noteq> Some maxUint256"
  using sample_getDummySignature [of sample_verifyResult sample_world] sample_dummy_words
  by (simp add: maxUint256_def)

section \<open>The network capability in both signatures\<close>

lemma signMessageUsingWebAuthn_flag:
  assumes "signMessageUsingWebAuthn env server chain msg w = (Inr sig, w')"
  shows "\<exists>authHex clientData c t r s.
      encodeAbiParameters env signature_abi
        [AbiString authHex, AbiString clientData, AbiBigInt c, AbiBigInt t, AbiBigInt r,
         AbiBigInt s, AbiBoolean (isRIP7212SupportedNetwork env chain)] = Inr sig"
proof -
  from signMessageUsingWebAuthn_Inr [OF assms] obtain cred verifyResult w1 where
    "buildSignature env chain cred verifyResult w1 = (Inr sig, w')"
    by blast
  from buildSignature_Inr [OF this] show ?thesis
    by blast
qed

text \<open>
  C6. Whatever the chain id of the signer: a signature \<^verbatim>\<open>signMessage\<close> returns and the
  dummy signature are both encodings of seven values whose last one is the network
  capability of that chain id. Under the contract ABI encoding the dummy signature exists
  and the \<^verbatim>\<open>usePrecompiled\<close> word (bytes 192 to 223) of the two is the same.
\<close>

theorem usePrecompiled_of_dummy_and_real:
  assumes "signMessage env signer msg w = (Inr sig, w')"
  shows "\<exists>authHex clientData c t r s.
      encodeAbiParameters env signature_abi
        [AbiString authHex, AbiString clientData, AbiBigInt c, AbiBigInt t, AbiBigInt r,
         AbiBigInt s, AbiBoolean (isRIP7212SupportedNetwork env (chainId signer))] = Inr sig \<and>
      fst (getDummySignature env signer w2) =
        encodeAbiParameters env signature_abi
          [AbiString dummy_authenticatorData, AbiString dummy_clientDataJSON,
           AbiBigInt maxUint256, AbiBigInt maxUint256, AbiBigInt dummy_r, AbiBigInt dummy_s,
           AbiBoolean (isRIP7212SupportedNetwork env (chainId signer))] \<and>
      (encodeAbiParameters env = abi_encode \<longrightarrow>
         (\<exists>dummy. fst (getDummySignature env signer w2) = Inr dummy \<and>
            word_at dummy 192 = word_at sig 192 \<and>
            word_at sig 192 =
              Some (if isRIP7212SupportedNetwork env (chainId signer) then 1 else 0)))"
proof -
  from assms obtain authHex clientData c t r s where real:
    "encodeAbiParameters env signature_abi
        [AbiString authHex, AbiString clientData, AbiBigInt c, AbiBigInt t, AbiBigInt r,
         AbiBigInt s, AbiBoolean (isRIP7212SupportedNetwork env (chainId signer))] = Inr sig"
    unfolding signMessage_def by (blast dest: signMessageUsingWebAuthn_flag)
  have dummy: "fst (getDummySignature env signer w2) =
        encodeAbiParameters env signature_abi
          [AbiString dummy_authenticatorData, AbiString dummy_clientDataJSON,
           AbiBigInt maxUint256, AbiBigInt maxUint256, AbiBigInt dummy_r, AbiBigInt dummy_s,
           AbiBoolean (isRIP7212SupportedNetwork env (chainId signer))]"
    by (simp add: getDummySignature_run)
  have "\<exists>dummy. fst (getDummySignature env signer w2) = Inr dummy \<and>
            word_at dummy 192 = word_at sig 192 \<and>
            word_at sig 192 =
              Some (if isRIP7212SupportedNetwork env (chainId signer) then 1 else 0)"
    if abi: "encodeAbiParameters env = abi_encode"
  proof -
    from dummy_decoded [of "isRIP7212SupportedNetwork env (chainId signer)"] obtain h where
      h: "abi_encode signature_abi
         [AbiString dummy_authenticatorData, AbiString dummy_clientDataJSON,
          AbiBigInt maxUint256, AbiBigInt maxUint256, AbiBigInt dummy_r, AbiBigInt dummy_s,
          AbiBoolean (isRIP7212SupportedNetwork env (chainId signer))] = Inr h"
      by blast
    have "word_at h 192 = Some (if isRIP7212SupportedNetwork env (chainId signer) then 1 else 0)"
      by (rule usePrecompiled_word [OF h])
    moreover have "word_at sig 192 =
        Some (if isRIP7212SupportedNetwork env (chainId signer) then 1 else 0)"
      by (rule usePrecompiled_word [OF real [unfolded abi]])
    moreover have "fst (getDummySignature env signer w2) = Inr h"
      using dummy h by (simp add: abi)
    ultimately show ?thesis
      by simp
  qed
  with real dummy show ?thesis
    by blast
qed

theorem usePrecompiled_of_dummy_and_real_witness:
  "signMessage (sample_env sample_verifyResult) sample_signer sample_message sample_world =
     (Inr sample_encodedSignature,
      sample_world\<lparr>calls := sample_sign_calls @ sample_build_calls\<rparr>) \<and>
   encodeAbiParameters (sample_env sample_verifyResult) = abi_encode \<and>
   fst (getDummySignature (sample_env sample_verifyResult) sample_signer sample_world) =
     Inr sample_dummySignature \<and>
   word_at sample_dummySignature 192 = word_at sample_encodedSignature 192 \<and>
   word_at sample_encodedSignature 192 = Some 0"
proof -
  have run: "signMessage (sample_env sample_verifyResult) sample_signer sample_message sample_world =
     (Inr sample_encodedSignature,
      sample_world\<lparr>calls := sample_sign_calls @ sample_build_calls\<rparr>)"
    using sample_signMessage [of sample_world] by (simp add: sample_world_def)
  have abi: "encodeAbiParameters (sample_env sample_verifyResult) = abi_encode"
    by (simp add: sample_env_def)
  have dummy: "fst (getDummySignature (sample_env sample_verifyResult) sample_signer sample_world) =
     Inr sample_dummySignature"
    by (rule sample_getDummySignature)
  have flag: "isRIP7212SupportedNetwork (sample_env sample_verifyResult) (chainId sample_signer) = False"
    by (simp add: sample_env_def sample_signer_def sample_chain_unsupported)
  from usePrecompiled_of_dummy_and_real [OF run, of sample_world] abi obtain d where
    "fst (getDummySignature (sample_env sample_verifyResult) sample_signer sample_world) = Inr d"
    "word_at d 192 = word_at sample_encodedSignature 192"
    "word_at sample_encodedSignature 192 =
       Some (if isRIP7212SupportedNetwork (sample_env sample_verifyResult) (chainId sample_signer)
             then 1 else 0)"
    by blast
  with run abi dummy flag show ?thesis
    by simp
qed

section \<open>The chain id of a signer\<close>

lemma ignores_bind:
  assumes "ignores_client_chain m" and "\<And>v. ignores_client_chain (f v)"
  shows "ignores_client_chain (io_bind m f)"
  unfolding ignores_client_chain_def
proof (intro allI)
  fix w x
  obtain res w1 where mw: "m w = (res, w1)"
    by (cases "m w")
  have mx: "m (w\<lparr>client_chain := x\<rparr>) = (res, w1\<lparr>client_chain := x\<rparr>)"
    using assms(1) mw by (simp add: ignores_client_chain_def)
  show "io_bind m f (w\<lparr>client_chain := x\<rparr>) =
        (fst (io_bind m f w), (snd (io_bind m f w))\<lparr>client_chain := x\<rparr>)"
  proof (cases res)
    case (Inl e)
    then show ?thesis
      by (simp add: io_bind_def mw mx)
  next
    case (Inr v)
    have "f v (w1\<lparr>client_chain := x\<rparr>) = (fst (f v w1), (snd (f v w1))\<lparr>client_chain := x\<rparr>)"
      using assms(2) [of v] by (simp add: ignores_client_chain_def)
    with Inr show ?thesis
      by (simp add: io_bind_def mw mx)
  qed
qed

lemma ignores_call: "ignores_client_chain (io_call ev r)"
  by (simp add: ignores_client_chain_def io_call_def)

lemma ignores_lift: "ignores_client_chain (io_lift r)"
  by (simp add: ignores_client_chain_def io_lift_def)

lemma ignores_throw: "ignores_client_chain (io_throw e)"
  by (simp add: ignores_client_chain_def io_throw_def)

lemma ignores_if:
  "ignores_client_chain a \<Longrightarrow> ignores_client_chain b \<Longrightarrow> ignores_client_chain (if c then a else b)"
  by simp

lemmas ignores_intros = ignores_bind ignores_call ignores_lift ignores_throw ignores_if

lemma ignores_buildSignature: "ignores_client_chain (buildSignature env chain cred verifyResult)"
  unfolding buildSignature_def Let_def by (intro ignores_intros)

lemma ignores_signMessageUsingWebAuthn:
  "ignores_client_chain (signMessageUsingWebAuthn env server chain msg)"
  unfolding signMessageUsingWebAuthn_def Let_def by (intro ignores_intros ignores_buildSignature)

lemma ignores_signTypedData: "ignores_client_chain (signTypedData env signer typedData)"
  unfolding signTypedData_def Let_def by (intro ignores_intros ignores_signMessageUsingWebAuthn)

lemma ignores_getDummySignature: "ignores_client_chain (getDummySignature env signer)"
  unfolding getDummySignature_def Let_def by (intro ignores_intros)

lemma quiet_bind:
  assumes "never_resolves_chain m" and "\<And>v. never_resolves_chain (f v)"
  shows "never_resolves_chain (io_bind m f)"
  unfolding never_resolves_chain_def
proof
  fix w
  obtain res w1 where mw: "m w = (res, w1)"
    by (cases "m w")
  from assms(1) obtain es where es: "calls (snd (m w)) = calls w @ es" "CallGetChainId \<notin> set es"
    by (auto simp: never_resolves_chain_def)
  show "\<exists>es. calls (snd (io_bind m f w)) = calls w @ es \<and> CallGetChainId \<notin> set es"
  proof (cases res)
    case (Inl e)
    with es mw show ?thesis
      by (simp add: io_bind_def)
  next
    case (Inr v)
    from assms(2) [of v] obtain es' where
      "calls (snd (f v w1)) = calls w1 @ es'" "CallGetChainId \<notin> set es'"
      by (auto simp: never_resolves_chain_def)
    with es mw have "calls (snd (f v w1)) = calls w @ (es @ es') \<and>
        CallGetChainId \<notin> set (es @ es')"
      by simp
    with Inr mw show ?thesis
      by (simp add: io_bind_def)
  qed
qed

lemma quiet_call: "ev \<noteq> CallGetChainId \<Longrightarrow> never_resolves_chain (io_call ev r)"
  by (simp add: never_resolves_chain_def io_call_def)

lemma quiet_lift: "never_resolves_chain (io_lift r)"
  by (simp add: never_resolves_chain_def io_lift_def)

lemma quiet_throw: "never_resolves_chain (io_throw e)"
  by (simp add: never_resolves_chain_def io_throw_def)

lemma quiet_if:
  "never_resolves_chain a \<Longrightarrow> never_resolves_chain b \<Longrightarrow> never_resolves_chain (if c then a else b)"
  by simp

lemmas quiet_intros = quiet_bind quiet_call quiet_lift quiet_throw quiet_if

lemma quiet_buildSignature: "never_resolves_chain (buildSignature env chain cred verifyResult)"
  unfolding buildSignature_def Let_def by (intro quiet_intros) simp_all

lemma quiet_signMessageUsingWebAuthn:
  "never_resolves_chain (signMessageUsingWebAuthn env server chain msg)"
  unfolding signMessageUsingWebAuthn_def Let_def
  by (intro quiet_intros quiet_buildSignature) simp_all

lemma quiet_signTypedData: "never_resolves_chain (signTypedData env signer typedData)"
  unfolding signTypedData_def Let_def
  by (intro quiet_intros quiet_signMessageUsingWebAuthn) simp_all

lemma quiet_getDummySignature: "never_resolves_chain (getDummySignature env signer)"
  unfolding getDummySignature_def Let_def by (intro quiet_intros) simp_all

lemma quiet_new_calls:
  "never_resolves_chain m \<Longrightarrow> CallGetChainId \<notin> set (new_calls w (snd (m w)))"
  by (auto simp: never_resolves_chain_def new_calls_def dest!: spec [of _ w])

lemma signTypedData_flag:
  assumes "signTypedData env signer typedData w = (Inr sig, w')"
  shows "\<exists>authHex clientData c t r s.
      encodeAbiParameters env signature_abi
        [AbiString authHex, AbiString clientData, AbiBigInt c, AbiBigInt t, AbiBigInt r,
         AbiBigInt s, AbiBoolean (isRIP7212SupportedNetwork env (chainId signer))] = Inr sig"
proof -
  from assms obtain hash w1 where
    "signMessageUsingWebAuthn env (serverUrl signer) (chainId signer) (MessageString hash) w1 =
       (Inr sig, w')"
    by (auto simp: signTypedData_def io_simps Let_def split: sum.splits)
  then show ?thesis
    by (rule signMessageUsingWebAuthn_flag)
qed

text \<open>
  C10. \<^verbatim>\<open>toWebAuthnSigner\<close> asks the client for its chain id once, and the signer keeps the
  answer. No method of the signer asks again; the result of \<^verbatim>\<open>signMessage\<close>,
  \<^verbatim>\<open>signTypedData\<close> and \<^verbatim>\<open>getDummySignature\<close> in a world where the client has moved to
  another chain is their result in the world where it has not; and the last of the seven
  values of every signature they return is the network capability of the chain id the
  client had when the signer was built.
\<close>

theorem chainId_resolved_once:
  assumes "toWebAuthnSigner env params w0 = (Inr signer, w1)"
  shows "client_chain w0 = Inr (chainId signer) \<and>
         count_list (new_calls w0 w1) CallGetChainId = 1 \<and>
         CallGetChainId \<notin> set (new_calls w (snd (signMessage env signer msg w))) \<and>
         CallGetChainId \<notin> set (new_calls w (snd (signTypedData env signer typedData w))) \<and>
         CallGetChainId \<notin> set (new_calls w (snd (getDummySignature env signer w))) \<and>
         fst (signMessage env signer msg (w\<lparr>client_chain := later\<rparr>)) =
           fst (signMessage env signer msg w) \<and>
         fst (signTypedData env signer typedData (w\<lparr>client_chain := later\<rparr>)) =
           fst (signTypedData env signer typedData w) \<and>
         fst (getDummySignature env signer (w\<lparr>client_chain := later\<rparr>)) =
           fst (getDummySignature env signer w) \<and>
         fst (getDummySignature env signer w) =
           encodeAbiParameters env signature_abi
             [AbiString dummy_authenticatorData, AbiString dummy_clientDataJSON,
              AbiBigInt maxUint256, AbiBigInt maxUint256, AbiBigInt dummy_r, AbiBigInt dummy_s,
              AbiBoolean (isRIP7212SupportedNetwork env (chainId signer))] \<and>
         (\<forall>sig. fst (signMessage env signer msg w) = Inr sig \<or>
                fst (signTypedData env signer typedData w) = Inr sig \<longrightarrow>
            (\<exists>authHex clientData c t r s.
               encodeAbiParameters env signature_abi
                 [AbiString authHex, AbiString clientData, AbiBigInt c, AbiBigInt t, AbiBigInt r,
                  AbiBigInt s, AbiBoolean (isRIP7212SupportedNetwork env (chainId signer))] =
               Inr sig))"
proof -
  from toWebAuthnSigner_Inr [OF assms] have
    chain: "client_chain w0 = Inr (chainId signer)"
    and once: "count_list (new_calls w0 w1) CallGetChainId = 1"
    by auto
  have quiet:
    "CallGetChainId \<notin> set (new_calls w (snd (signMessage env signer msg w)))"
    "CallGetChainId \<notin> set (new_calls w (snd (signTypedData env signer typedData w)))"
    "CallGetChainId \<notin> set (new_calls w (snd (getDummySignature env signer w)))"
    unfolding signMessage_def
    by (rule quiet_new_calls, rule quiet_signMessageUsingWebAuthn quiet_signTypedData
        quiet_getDummySignature)+
  have same:
    "fst (signMessage env signer msg (w\<lparr>client_chain := later\<rparr>)) =
       fst (signMessage env signer msg w)"
    "fst (signTypedData env signer typedData (w\<lparr>client_chain := later\<rparr>)) =
       fst (signTypedData env signer typedData w)"
    "fst (getDummySignature env signer (w\<lparr>client_chain := later\<rparr>)) =
       fst (getDummySignature env signer w)"
    using ignores_signMessageUsingWebAuthn [of env "serverUrl signer" "chainId signer" msg]
      ignores_signTypedData [of env signer typedData] ignores_getDummySignature [of env signer]
    by (simp_all add: ignores_client_chain_def signMessage_def)
  have dummy: "fst (getDummySignature env signer w) =
           encodeAbiParameters env signature_abi
             [AbiString dummy_authenticatorData, AbiString dummy_clientDataJSON,
              AbiBigInt maxUint256, AbiBigInt maxUint256, AbiBigInt dummy_r, AbiBigInt dummy_s,
              AbiBoolean (isRIP7212SupportedNetwork env (chainId signer))]"
    by (simp add: getDummySignature_run)
  have real: "\<exists>authHex clientData c t r s.
               encodeAbiParameters env signature_abi
                 [AbiString authHex, AbiString clientData, AbiBigInt c, AbiBigInt t, AbiBigInt r,
                  AbiBigInt s, AbiBoolean (isRIP7212SupportedNetwork env (chainId signer))] =
               Inr sig"
    if "fst (signMessage env signer msg w) = Inr sig \<or>
        fst (signTypedData env signer typedData w) = Inr sig" for sig
    using that
  proof
    assume "fst (signMessage env signer msg w) = Inr sig"
    then have "signMessageUsingWebAuthn env (serverUrl signer) (chainId signer) msg w =
        (Inr sig, snd (signMessage env signer msg w))"
      by (simp add: signMessage_def prod_eq_iff)
    then show ?thesis
      by (rule signMessageUsingWebAuthn_flag)
  next
    assume "fst (signTypedData env signer typedData w) = Inr sig"
    then have "signTypedData env signer typedData w =
        (Inr sig, snd (signTypedData env signer typedData w))"
      by (simp add: prod_eq_iff)
    then show ?thesis
      by (rule signTypedData_flag)
  qed
  from chain once quiet same dummy real show ?thesis
    by blast
qed

theorem chainId_resolved_once_witness:
  "toWebAuthnSigner (sample_env sample_verifyResult) sample_params sample_world =
     (Inr sample_signer,
      sample_world\<lparr>calls := [CallToWebAuthnPubKey ''alice'' sample_serverUrl Register, CallGetChainId]\<rparr>) \<and>
   client_chain sample_world = Inr 11155111 \<and>
   chainId sample_signer = 11155111 \<and>
   \<not> isRIP7212SupportedNetwork (sample_env sample_verifyResult) 11155111 \<and>
   isRIP7212SupportedNetwork (sample_env sample_verifyResult) 80002 \<and>
   fst (signMessage (sample_env sample_verifyResult) sample_signer sample_message
          (sample_world\<lparr>client_chain := Inr 80002\<rparr>)) = Inr sample_encodedSignature \<and>
   fst (getDummySignature (sample_env sample_verifyResult) sample_signer
          (sample_world\<lparr>client_chain := Inr 80002\<rparr>)) = Inr sample_dummySignature \<and>
   word_at sample_encodedSignature 192 = Some 0 \<and>
   word_at sample_dummySignature 192 = Some 0"
proof -
  note run = sample_toWebAuthnSigner [of sample_verifyResult]
  note facts = chainId_resolved_once [OF run, of sample_world sample_message _ "Inr 80002"]
  have "fst (signMessage (sample_env sample_verifyResult) sample_signer sample_message
          (sample_world\<lparr>client_chain := Inr 80002\<rparr>)) =
        fst (signMessage (sample_env sample_verifyResult) sample_signer sample_message sample_world)"
    using facts by blast
  moreover have "fst (getDummySignature (sample_env sample_verifyResult) sample_signer
          (sample_world\<lparr>client_chain := Inr 80002\<rparr>)) =
        fst (getDummySignature (sample_env sample_verifyResult) sample_signer sample_world)"
    using facts by blast
  moreover have "client_chain sample_world = Inr (chainId sample_signer)"
    using facts by blast
  moreover have "chainId sample_signer = 11155111"
    by (simp add: sample_signer_def)
  moreover have "\<not> isRIP7212SupportedNetwork (sample_env sample_verifyResult) 11155111"
    "isRIP7212SupportedNetwork (sample_env sample_verifyResult) 80002"
    by (simp_all add: sample_env_def sample_isRIP7212SupportedNetwork_def)
  moreover have "word_at sample_encodedSignature 192 = Some 0"
    using usePrecompiled_word [OF sample_encoding [unfolded sample_values_def]] by simp
  moreover have "word_at sample_dummySignature 192 = Some 0"
    using usePrecompiled_word [OF sample_dummy_encoding] by simp
  ultimately show ?thesis
    using run sample_signMessage [of sample_world] sample_getDummySignature [of sample_verifyResult sample_world]
    by simp
qed

end
